theory Spec2Isabelle
  imports Main "HOL-Library.Sublist"
begin

section \<open>Data model\<close>

text \<open>
  The session managers of \<^verbatim>\<open>services/BaseSessionManager.ts\<close>,
  \<^verbatim>\<open>services/TextSessionManager.ts\<close>, \<^verbatim>\<open>services/CallSessionManager.ts\<close> and the
  orchestrator of \<^verbatim>\<open>services/InteractionManager.ts\<close>, embedded as functions on an
  explicit state. Every handler runs to completion: an \<^verbatim>\<open>await\<close> is a step of the
  same function, and a rejected promise or a thrown exception is the \<open>Inl\<close> branch of a
  sum. Times are milliseconds since the epoch.
\<close>

datatype error = Error string

text \<open>JavaScript truthiness of a string: only the empty string is falsy.\<close>

definition truthy :: "string \<Rightarrow> bool" where
  "truthy s = (s \<noteq> [])"

text \<open>Truthiness of \<^verbatim>\<open>string | null\<close>.\<close>

fun truthyOpt :: "string option \<Rightarrow> bool" where
  "truthyOpt None = False"
| "truthyOpt (Some s) = truthy s"

text \<open>
  The identifier \<^verbatim>\<open>`text-session-${Date.now()}`\<close>: the prefix of the template and
  the number printed after it.
\<close>

datatype session_id = SessionId string int

record SessionState =
  sessionId :: session_id
  resumptionToken :: "string option"
  currentModel :: string
  isActive :: bool
  connectionAttempts :: nat

record SessionConfig =
  model :: string
  contextText :: "string option"
  enableResumption :: "bool option"
  maxReconnectAttempts :: "nat option"

datatype Sender = User | Model

datatype message_id = EpochId int | TurnId nat

record Message =
  messageId :: message_id
  sender :: Sender
  content :: string
  timestamp :: int

datatype SessionEvent =
    SessionStarted session_id
  | SessionEnded session_id
  | SessionResumed session_id "string option"
  | GoAway int
  | RateLimitError error
  | NetworkError error bool
  | Reconnecting nat
  | MessageReceived Message

text \<open>
  The conduit \<^verbatim>\<open>Session\<close> returned by \<^verbatim>\<open>client.live.connect\<close>. The object carries
  its own behaviour: \<open>closeError\<close> is the exception \<^verbatim>\<open>close()\<close> throws, if any, and
  \<open>sendError\<close> the one a send throws. A \<^verbatim>\<open>Session\<close> is an object, hence truthy.
\<close>

record Session =
  conn :: nat
  closeError :: "error option"
  sendError :: "error option"

text \<open>The object \<^verbatim>\<open>getConfig()\<close> builds for \<^verbatim>\<open>live.connect\<close>.\<close>

record LiveConfig =
  systemInstruction :: string
  voiceName :: string
  outputAudioTranscription :: bool
  inputAudioTranscription :: bool
  enableAffectiveDialog :: bool

text \<open>What the manager does on the transport, in order.\<close>

datatype wire =
    Connect string LiveConfig
  | Close nat
  | SendClientContent nat string
  | SendRealtimeInput nat "nat list"

datatype level = Debug | Info | Warn | Err

datatype detail = NoDetail | DToken string | DInt int | DError error | DAttempt nat bool

datatype log_entry = Log level string detail

text \<open>A handle of \<^verbatim>\<open>setTimeout\<close>: a positive integer or an object, truthy either way.\<close>

datatype timer_id = TimerId nat

record StoredToken =
  token :: string
  storedAt :: int

text \<open>A turn of the text history, \<^verbatim>\<open>{role, parts: [{text}]}\<close>.\<close>

record Content =
  role :: string
  parts :: "string list"

text \<open>A turn of the call transcript, \<^verbatim>\<open>{speaker, text}\<close>.\<close>

record Turn =
  speaker :: Sender
  said :: string

text \<open>
  The fields a subclass adds to \<^verbatim>\<open>BaseSessionManager\<close>; the constructor is the
  class of the object, and the abstract methods dispatch on it. The text adapter's
  \<^verbatim>\<open>_currentResolver\<close> and \<^verbatim>\<open>_currentRejecter\<close> are always set and deleted together
  and settle the same promise, so the second argument of \<open>TextSessionManager\<close> is
  that promise, after the \<^verbatim>\<open>messages\<close>; the third is \<^verbatim>\<open>_responseText\<close>, with \<open>None\<close>
  for \<^verbatim>\<open>undefined\<close>. The argument of \<open>CallSessionManager\<close> is the \<^verbatim>\<open>callTranscript\<close>.
\<close>

datatype adapter =
    TextSessionManager "Content list" "nat option" "string option"
  | CallSessionManager "Turn list"

datatype EnergyMode = Tts | Sts

text \<open>
  One session manager together with the part of the process it acts on: the static
  token store, the clock, the pending timeouts, the listeners' view (\<open>emitted\<close>), the
  log, the transport (\<open>remote n\<close> is how the \<open>n\<close>-th call of \<^verbatim>\<open>live.connect\<close>
  settles), the UI transcript callbacks, the promises handed out by \<^verbatim>\<open>sendMessage\<close>,
  and the energy ledger. The clock \<open>now\<close> is what \<^verbatim>\<open>Date.now()\<close> returns; it moves
  where a handler waits for a timeout and when a timeout fires.
\<close>

record world =
  self :: adapter
  sessionState :: "SessionState option"
  reconnectTimer :: "timer_id option"
  session :: "Session option"
  resumptionTokenStore :: "string \<rightharpoonup> StoredToken"
  now :: int
  timers :: "(timer_id \<times> int) list"
  nextTimer :: nat
  emitted :: "SessionEvent list"
  logged :: "log_entry list"
  remote :: "nat \<Rightarrow> error + Session"
  connects :: nat
  wired :: "wire list"
  transcriptUpdates :: "(string \<times> Sender option) list"
  settled :: "nat \<rightharpoonup> error + string"
  nextPromise :: nat
  energyLevel :: "EnergyMode \<Rightarrow> nat"
  modelTable :: "EnergyMode \<Rightarrow> nat \<Rightarrow> string option"
  systemPrompt :: string

section \<open>BaseSessionManager\<close>

definition MAX_RECONNECT_ATTEMPTS :: nat where
  "MAX_RECONNECT_ATTEMPTS = 3"

definition RECONNECT_DELAY_MS :: int where
  "RECONNECT_DELAY_MS = 2000"

definition RESUMPTION_TOKEN_EXPIRY_MS :: int where
  "RESUMPTION_TOKEN_EXPIRY_MS = 2 * 60 * 60 * 1000"

text \<open>The name each subclass passes to \<^verbatim>\<open>super(...)\<close>.\<close>

fun adapterName :: "adapter \<Rightarrow> string" where
  "adapterName (TextSessionManager _ _ _) = ''TextSessionManager''"
| "adapterName (CallSessionManager _) = ''CallSessionManager''"

definition componentName :: "world \<Rightarrow> string" where
  "componentName w = adapterName (self w)"

definition logMsg :: "level \<Rightarrow> string \<Rightarrow> detail \<Rightarrow> world \<Rightarrow> world" where
  "logMsg l m d w = w\<lparr>logged := logged w @ [Log l m d]\<rparr>"

text \<open>
  \<^verbatim>\<open>emitEvent\<close> hands the event to every registered listener; the listeners are
  outside the managers, and \<open>emitted\<close> records what they are handed.
\<close>

definition emitEvent :: "SessionEvent \<Rightarrow> world \<Rightarrow> world" where
  "emitEvent e w = w\<lparr>emitted := emitted w @ [e]\<rparr>"

definition setTimeout :: "int \<Rightarrow> world \<Rightarrow> timer_id \<times> world" where
  "setTimeout d w =
     (TimerId (nextTimer w),
      w\<lparr>timers := timers w @ [(TimerId (nextTimer w), now w + d)],
        nextTimer := Suc (nextTimer w)\<rparr>)"

definition clearTimeout :: "timer_id \<Rightarrow> world \<Rightarrow> world" where
  "clearTimeout h w = w\<lparr>timers := filter (\<lambda>p. fst p \<noteq> h) (timers w)\<rparr>"

text \<open>\<^verbatim>\<open>await new Promise((resolve) => setTimeout(resolve, d))\<close>.\<close>

definition delay :: "int \<Rightarrow> world \<Rightarrow> world" where
  "delay d w = w\<lparr>now := now w + d\<rparr>"

definition storeResumptionToken :: "string \<Rightarrow> world \<Rightarrow> world" where
  "storeResumptionToken tok w =
     w\<lparr>resumptionTokenStore :=
         (resumptionTokenStore w)(componentName w \<mapsto> \<lparr>token = tok, storedAt = now w\<rparr>)\<rparr>"

definition getValidResumptionToken :: "world \<Rightarrow> string option \<times> world" where
  "getValidResumptionToken w =
     (case resumptionTokenStore w (componentName w) of
        None \<Rightarrow> (None, w)
      | Some stored \<Rightarrow>
          if now w - storedAt stored > RESUMPTION_TOKEN_EXPIRY_MS
          then (None,
                (logMsg Debug ''Resumption token expired'' NoDetail w)
                  \<lparr>resumptionTokenStore := (resumptionTokenStore w)(componentName w := None)\<rparr>)
          else (Some (token stored), w))"

section \<open>The energy ledger\<close>

text \<open>
  Modelled from the spec: \<^verbatim>\<open>services/EnergyBarService.ts\<close> is not among the sources.
  The ledger keeps one level per mode; \<^verbatim>\<open>currentModel(mode)\<close> is
  \<^verbatim>\<open>modelFor(mode, level[mode])\<close>, a pure lookup in a table of configured models
  (\<open>modelTable\<close>, a parameter of the model). The text mode's maximum level is 2, the
  audio mode's is 3.
\<close>

fun maxLevel :: "EnergyMode \<Rightarrow> nat" where
  "maxLevel Tts = 2"
| "maxLevel Sts = 3"

definition getCurrentModel :: "EnergyMode \<Rightarrow> world \<Rightarrow> string option" where
  "getCurrentModel m w = modelTable w m (energyLevel w m)"

text \<open>
  Modelled from the spec: \<^verbatim>\<open>isEnhancedDialogEnabled()\<close> is true only at the maximum
  audio-mode level.
\<close>

definition isAffectiveDialogEnabled :: "world \<Rightarrow> bool" where
  "isAffectiveDialogEnabled w = (energyLevel w Sts = maxLevel Sts)"

section \<open>The adapters' implementations of the abstract methods\<close>

fun isText :: "adapter \<Rightarrow> bool" where
  "isText (TextSessionManager _ _ _) = True"
| "isText (CallSessionManager _) = False"

text \<open>\<^verbatim>\<open>getModel()\<close> of either adapter: a missing (falsy) model is an exception.\<close>

definition getModel :: "world \<Rightarrow> error + string" where
  "getModel w =
     (if isText (self w)
      then (case getCurrentModel Tts w of
              None \<Rightarrow> Inl (Error ''Energy exhausted: no model available for text session'')
            | Some m \<Rightarrow>
                if truthy m then Inr m
                else Inl (Error ''Energy exhausted: no model available for text session''))
      else (case getCurrentModel Sts w of
              None \<Rightarrow> Inl (Error ''Energy exhausted: no model available for STS session'')
            | Some m \<Rightarrow>
                if truthy m then Inr m
                else Inl (Error ''Energy exhausted: no model available for STS session'')))"

definition getConfig :: "world \<Rightarrow> LiveConfig" where
  "getConfig w =
     (if isText (self w)
      then \<lparr>systemInstruction = systemPrompt w, voiceName = ''Kore'',
            outputAudioTranscription = False, inputAudioTranscription = False,
            enableAffectiveDialog = False\<rparr>
      else \<lparr>systemInstruction = systemPrompt w, voiceName = ''Kore'',
            outputAudioTranscription = True, inputAudioTranscription = True,
            enableAffectiveDialog = isAffectiveDialogEnabled w\<rparr>)"

definition sessionPrefix :: "world \<Rightarrow> string" where
  "sessionPrefix w = (if isText (self w) then ''text-session-'' else ''sts-session-'')"

text \<open>
  \<^verbatim>\<open>createNewSession(config)\<close>: the \<open>connects w\<close>-th call of \<^verbatim>\<open>live.connect\<close>.
  When it rejects, the exception leaves the method before \<^verbatim>\<open>this.session\<close> is
  assigned. When it resolves, the conduit is an object, so the guard
  \<^verbatim>\<open>if (this.session)\<close> holds and the session state is replaced by a fresh one.
\<close>

definition createNewSession :: "SessionConfig \<Rightarrow> world \<Rightarrow> error \<times> world + world" where
  "createNewSession config w =
     (let w1 = logMsg Info
                 (if isText (self w) then ''Creating new text session''
                  else ''Creating new STS session'') NoDetail w;
          w2 = w1\<lparr>wired := wired w1 @ [Connect (model config) (getConfig w1)],
                  connects := Suc (connects w1)\<rparr>
      in case remote w1 (connects w1) of
           Inl e \<Rightarrow> Inl (e, w2)
         | Inr s \<Rightarrow>
             Inr (w2\<lparr>session := Some s,
                     sessionState :=
                       Some \<lparr>sessionId = SessionId (sessionPrefix w2) (now w2),
                             resumptionToken = None,
                             currentModel = model config,
                             isActive = True,
                             connectionAttempts = 0\<rparr>\<rparr>))"

definition resumeSession ::
  "SessionConfig \<Rightarrow> string \<Rightarrow> world \<Rightarrow> error \<times> world + world" where
  "resumeSession config tok w =
     createNewSession config
       (logMsg Info
          (if isText (self w) then ''Resuming text session'' else ''Resuming STS session'')
          (DToken tok) w)"

text \<open>
  \<^verbatim>\<open>performSessionCleanup()\<close>: closes the conduit (an exception of \<^verbatim>\<open>close()\<close> is
  caught and logged) and replaces the history by an empty one.
\<close>

fun clearHistory :: "adapter \<Rightarrow> adapter" where
  "clearHistory (TextSessionManager ms p r) = TextSessionManager [] p r"
| "clearHistory (CallSessionManager tr) = CallSessionManager []"

definition performSessionCleanup :: "world \<Rightarrow> world" where
  "performSessionCleanup w =
     (let w1 = logMsg Info
                 (if isText (self w) then ''Cleaning up text session''
                  else ''Cleaning up STS session'') NoDetail w;
          w2 = (case session w1 of
                  None \<Rightarrow> w1
                | Some s \<Rightarrow>
                    (let w' = w1\<lparr>wired := wired w1 @ [Close (conn s)]\<rparr>;
                         w'' = (case closeError s of
                                  None \<Rightarrow> w'
                                | Some e \<Rightarrow> logMsg Warn ''Error closing session'' (DError e) w')
                     in w''\<lparr>session := None\<rparr>))
      in w2\<lparr>self := clearHistory (self w2)\<rparr>)"

definition reconnectSession :: "world \<Rightarrow> error \<times> world + world" where
  "reconnectSession w =
     (let w1 = logMsg Info
                 (if isText (self w) then ''Reconnecting text session''
                  else ''Reconnecting STS session'') NoDetail w;
          w2 = performSessionCleanup w1
      in case sessionState w2 of
           None \<Rightarrow> Inr w2
         | Some st \<Rightarrow>
             createNewSession
               \<lparr>model = currentModel st, contextText = None, enableResumption = None,
                maxReconnectAttempts = None\<rparr> w2)"

text \<open>\<^verbatim>\<open>getMessages()\<close> and \<^verbatim>\<open>getCallTranscript()\<close> return a copy of the history.\<close>

fun messagesOf :: "adapter \<Rightarrow> Content list" where
  "messagesOf (TextSessionManager ms _ _) = ms"
| "messagesOf (CallSessionManager _) = []"

fun transcriptOf :: "adapter \<Rightarrow> Turn list" where
  "transcriptOf (TextSessionManager _ _ _) = []"
| "transcriptOf (CallSessionManager tr) = tr"

definition getMessages :: "world \<Rightarrow> Content list" where
  "getMessages w = messagesOf (self w)"

definition getCallTranscript :: "world \<Rightarrow> Turn list" where
  "getCallTranscript w = transcriptOf (self w)"

lemma clearHistory_simps [simp]:
  "messagesOf (clearHistory a) = []"
  "transcriptOf (clearHistory a) = []"
  "adapterName (clearHistory a) = adapterName a"
  "isText (clearHistory a) = isText a"
  by (cases a; simp)+

section \<open>BaseSessionManager: the session life cycle\<close>

text \<open>
  \<^verbatim>\<open>startSession(config)\<close>. The non-null assertion \<^verbatim>\<open>this.sessionState!\<close> is a
  \<^verbatim>\<open>TypeError\<close> when the state is null; like every exception of the body it is logged
  and thrown again.
\<close>

definition typeError :: error where
  "typeError = Error ''TypeError: Cannot read properties of null''"

text \<open>
  The end of \<^verbatim>\<open>startSession\<close>, after the conduit was asked for: \<open>r\<close> is how
  \<^verbatim>\<open>resumeSession\<close> or \<^verbatim>\<open>createNewSession\<close> settled.
\<close>

definition sessionStarted :: "error \<times> world + world \<Rightarrow> error \<times> world + world" where
  "sessionStarted r =
     (case r of
        Inl (e, w3) \<Rightarrow> Inl (e, logMsg Err ''Failed to start session'' (DError e) w3)
      | Inr w3 \<Rightarrow>
          (case sessionState w3 of
             None \<Rightarrow>
               Inl (typeError, logMsg Err ''Failed to start session'' (DError typeError) w3)
           | Some st \<Rightarrow> Inr (emitEvent (SessionStarted (sessionId st)) w3)))"

definition startSession :: "SessionConfig \<Rightarrow> world \<Rightarrow> error \<times> world + world" where
  "startSession config w =
     (let w1 = logMsg Info ''Starting session'' NoDetail w;
          (resumption, w2) = getValidResumptionToken w1
      in sessionStarted
           (case resumption of
              None \<Rightarrow> createNewSession config w2
            | Some tok \<Rightarrow>
                if truthy tok \<and> enableResumption config = Some True
                then resumeSession config tok
                       (logMsg Info ''Attempting to resume session'' (DToken tok) w2)
                else createNewSession config w2))"

text \<open>The state an operation leaves, whether it returned or threw.\<close>

definition worldOf :: "error \<times> world + world \<Rightarrow> world" where
  "worldOf r = (case r of Inl (e, w) \<Rightarrow> w | Inr w \<Rightarrow> w)"

definition endSession :: "world \<Rightarrow> world" where
  "endSession w =
     (case sessionState w of
        None \<Rightarrow> logMsg Warn ''No active session to end'' NoDetail w
      | Some st \<Rightarrow>
          (let w1 = logMsg Info ''Ending session'' NoDetail w;
               w2 = (case reconnectTimer w1 of
                       None \<Rightarrow> w1
                     | Some h \<Rightarrow> (clearTimeout h w1)\<lparr>reconnectTimer := None\<rparr>);
               w3 = performSessionCleanup w2;
               w4 = w3\<lparr>sessionState := None\<rparr>;
               w5 = (case resumptionToken st of
                       None \<Rightarrow> w4
                     | Some tok \<Rightarrow> if truthy tok then storeResumptionToken tok w4 else w4)
           in emitEvent (SessionEnded (sessionId st)) w5))"

definition setResumptionToken :: "string \<Rightarrow> world \<Rightarrow> world" where
  "setResumptionToken tok w =
     (case sessionState w of
        None \<Rightarrow> logMsg Warn ''Cannot set resumption token without active session'' NoDetail w
      | Some st \<Rightarrow>
          storeResumptionToken tok
            ((logMsg Debug ''Updating resumption token'' (DToken tok) w)
               \<lparr>sessionState := Some (st\<lparr>resumptionToken := Some tok\<rparr>)\<rparr>))"

definition scheduleReconnection :: "int \<Rightarrow> world \<Rightarrow> world" where
  "scheduleReconnection timeLeft w =
     (let w1 = (case reconnectTimer w of None \<Rightarrow> w | Some h \<Rightarrow> clearTimeout h w);
          reconnectIn = max 0 (timeLeft - 500);
          w2 = logMsg Info ''Scheduling reconnection'' (DInt reconnectIn) w1;
          (h, w3) = setTimeout reconnectIn w2
      in w3\<lparr>reconnectTimer := Some h\<rparr>)"

definition handleGoAwayMessage :: "int \<Rightarrow> world \<Rightarrow> world" where
  "handleGoAwayMessage timeLeft w =
     (let w1 = logMsg Warn ''Received GoAway message'' (DInt timeLeft) w;
          w2 = emitEvent (GoAway timeLeft) w1
      in case sessionState w2 of
           None \<Rightarrow> w2
         | Some st \<Rightarrow>
             if truthyOpt (resumptionToken st) then scheduleReconnection timeLeft w2 else w2)"

definition handleRateLimitError :: "error \<Rightarrow> world \<Rightarrow> world" where
  "handleRateLimitError e w =
     emitEvent (RateLimitError e) (logMsg Err ''Rate limit error'' (DError e) w)"

subsection \<open>Network errors and reconnection\<close>

lemma createNewSession_rejected:
  "createNewSession config w = Inl (e, w') \<Longrightarrow> sessionState w' = sessionState w"
  by (auto simp: createNewSession_def logMsg_def Let_def split: sum.splits)

lemma performSessionCleanup_sessionState:
  "sessionState (performSessionCleanup w) = sessionState w"
  by (simp add: performSessionCleanup_def logMsg_def Let_def split: option.splits)

lemma performSessionCleanup_fields:
  "session (performSessionCleanup w) = None"
  "self (performSessionCleanup w) = clearHistory (self w)"
  "reconnectTimer (performSessionCleanup w) = reconnectTimer w"
  "timers (performSessionCleanup w) = timers w"
  "nextTimer (performSessionCleanup w) = nextTimer w"
  "emitted (performSessionCleanup w) = emitted w"
  "resumptionTokenStore (performSessionCleanup w) = resumptionTokenStore w"
  "now (performSessionCleanup w) = now w"
  "remote (performSessionCleanup w) = remote w"
  "connects (performSessionCleanup w) = connects w"
  "wired (performSessionCleanup w) =
     wired w @ (case session w of None \<Rightarrow> [] | Some s \<Rightarrow> [Close (conn s)])"
  by (simp_all add: performSessionCleanup_def logMsg_def Let_def split: option.splits)

lemma reconnectSession_rejected:
  "reconnectSession w = Inl (e, w') \<Longrightarrow> sessionState w' = sessionState w"
  by (auto simp: reconnectSession_def Let_def performSessionCleanup_sessionState logMsg_def
      dest!: createNewSession_rejected split: option.splits)

text \<open>
  \<^verbatim>\<open>handleNetworkError(error)\<close> and \<^verbatim>\<open>attemptReconnection()\<close> call each other: a
  reconnection that fails is handled as a network error. In \<^verbatim>\<open>attemptReconnection\<close>
  the statements after \<^verbatim>\<open>await this.reconnectSession()\<close> are inside the \<^verbatim>\<open>try\<close>
  block, so the \<^verbatim>\<open>TypeError\<close> of a null session state is caught like a rejection.
\<close>

definition attemptsLeft :: "world \<Rightarrow> nat" where
  "attemptsLeft w =
     (case sessionState w of
        None \<Rightarrow> 0
      | Some st \<Rightarrow> MAX_RECONNECT_ATTEMPTS - connectionAttempts st)"

function handleNetworkError :: "error \<Rightarrow> world \<Rightarrow> world"
  and attemptReconnection :: "world \<Rightarrow> world" where
  "handleNetworkError err w =
     (case sessionState w of
        None \<Rightarrow> logMsg Err ''Network error without active session'' (DError err) w
      | Some st \<Rightarrow>
          (let attempts = Suc (connectionAttempts st);
               willRetry = (attempts < MAX_RECONNECT_ATTEMPTS \<and> truthyOpt (resumptionToken st));
               w1 = w\<lparr>sessionState := Some (st\<lparr>connectionAttempts := attempts\<rparr>)\<rparr>;
               w2 = logMsg Err ''Network error occurred'' (DAttempt attempts willRetry) w1;
               w3 = emitEvent (NetworkError err willRetry) w2
           in if willRetry then attemptReconnection w3 else endSession w3))"
| "attemptReconnection w =
     (case sessionState w of
        None \<Rightarrow> logMsg Warn ''Cannot reconnect without resumption token'' NoDetail w
      | Some st \<Rightarrow>
          if \<not> truthyOpt (resumptionToken st)
          then logMsg Warn ''Cannot reconnect without resumption token'' NoDetail w
          else
            (let w1 = emitEvent (Reconnecting (connectionAttempts st)) w;
                 w2 = delay RECONNECT_DELAY_MS w1
             in case reconnectSession w2 of
                  Inl (e, w3) \<Rightarrow>
                    handleNetworkError e (logMsg Err ''Reconnection failed'' (DError e) w3)
                | Inr w3 \<Rightarrow>
                    (case sessionState w3 of
                       None \<Rightarrow>
                         handleNetworkError typeError
                           (logMsg Err ''Reconnection failed'' (DError typeError) w3)
                     | Some st3 \<Rightarrow>
                         emitEvent
                           (SessionResumed (sessionId st3) (resumptionToken st3))
                           (w3\<lparr>sessionState := Some (st3\<lparr>connectionAttempts := 0\<rparr>)\<rparr>))))"
  by pat_completeness auto
termination
proof (relation "measure (\<lambda>x. case x of Inl (e, w) \<Rightarrow> 2 * attemptsLeft w
                                        | Inr w \<Rightarrow> 2 * attemptsLeft w + 1)")
  show "wf (measure (\<lambda>x. case x of Inl (e, w) \<Rightarrow> 2 * attemptsLeft w
                                  | Inr w \<Rightarrow> 2 * attemptsLeft w + 1))"
    by simp
next
  fix err w st attempts willRetry w1 w2 w3
  assume "sessionState w = Some st" "attempts = Suc (connectionAttempts st)"
    "willRetry = (attempts < MAX_RECONNECT_ATTEMPTS \<and> truthyOpt (resumptionToken st))"
    "w1 = w\<lparr>sessionState := Some (st\<lparr>connectionAttempts := attempts\<rparr>)\<rparr>"
    "w2 = logMsg Err ''Network error occurred'' (DAttempt attempts willRetry) w1"
    "w3 = emitEvent (NetworkError err willRetry) w2" "willRetry"
  then show "(Inr w3, Inl (err, w)) \<in> measure (\<lambda>x. case x of Inl (e, w) \<Rightarrow> 2 * attemptsLeft w
                                  | Inr w \<Rightarrow> 2 * attemptsLeft w + 1)"
    by (simp add: attemptsLeft_def logMsg_def emitEvent_def MAX_RECONNECT_ATTEMPTS_def, arith)
next
  fix w st w1 w2 x e w3
  assume "sessionState w = Some st" "w1 = emitEvent (Reconnecting (connectionAttempts st)) w"
    "w2 = delay RECONNECT_DELAY_MS w1" "reconnectSession w2 = Inl x" "(e, w3) = x"
  then have "sessionState w3 = sessionState w"
    using reconnectSession_rejected [of w2 e w3] by (simp add: delay_def emitEvent_def)
  then show "(Inl (e, logMsg Err ''Reconnection failed'' (DError e) w3), Inr w)
      \<in> measure (\<lambda>x. case x of Inl (e, w) \<Rightarrow> 2 * attemptsLeft w
                                  | Inr w \<Rightarrow> 2 * attemptsLeft w + 1)"
    by (simp add: attemptsLeft_def logMsg_def)
next
  fix w st w1 w2 and w3 :: world
  assume "sessionState w3 = None"
  then show "(Inl (typeError, logMsg Err ''Reconnection failed'' (DError typeError) w3), Inr w)
      \<in> measure (\<lambda>x. case x of Inl (e, w) \<Rightarrow> 2 * attemptsLeft w
                                  | Inr w \<Rightarrow> 2 * attemptsLeft w + 1)"
    by (simp add: attemptsLeft_def logMsg_def)
qed

text \<open>
  The callback of the timeout set by \<^verbatim>\<open>scheduleReconnection\<close> runs when its time has
  come: the timeout is no longer pending, and \<^verbatim>\<open>this.reconnectTimer\<close> keeps the stale
  handle. A handle that is not pending fires nothing.
\<close>

definition timerFires :: "timer_id \<Rightarrow> world \<Rightarrow> world" where
  "timerFires h w =
     (case map_of (timers w) h of
        None \<Rightarrow> w
      | Some due \<Rightarrow>
          attemptReconnection
            ((clearTimeout h w)\<lparr>now := max (now w) due\<rparr>))"

section \<open>Inbound messages\<close>

text \<open>
  The fields of a \<^verbatim>\<open>LiveServerMessage\<close> the callbacks read. An absent object or field
  is \<open>None\<close>; \<open>timeLeft\<close> is \<open>Some\<close> when \<^verbatim>\<open>typeof goAway.timeLeft === "number"\<close>;
  \<open>errorMessage\<close> is the \<^verbatim>\<open>message\<close> of \<^verbatim>\<open>serverContent.error\<close>; a model turn is the
  list of its parts, each with its optional text.
\<close>

record ResumptionUpdate =
  resumable :: bool
  newHandle :: "string option"

record GoAwayNotice =
  timeLeft :: "int option"

record ServerContent =
  contentResumptionUpdate :: "ResumptionUpdate option"
  contentGoAway :: "GoAwayNotice option"
  errorMessage :: "string option"
  modelTurn :: "string option list option"
  generationComplete :: bool
  outputTranscription :: "string option"
  inputTranscription :: "string option"

record LiveServerMessage =
  sessionResumptionUpdate :: "ResumptionUpdate option"
  goAway :: "GoAwayNotice option"
  serverContent :: "ServerContent option"

text \<open>\<^verbatim>\<open>msga.sessionResumptionUpdate || msga.serverContent?.sessionResumptionUpdate\<close>\<close>

definition resumptionUpdateOf :: "LiveServerMessage \<Rightarrow> ResumptionUpdate option" where
  "resumptionUpdateOf msg =
     (case sessionResumptionUpdate msg of
        Some u \<Rightarrow> Some u
      | None \<Rightarrow> (case serverContent msg of None \<Rightarrow> None | Some sc \<Rightarrow> contentResumptionUpdate sc))"

definition goAwayOf :: "LiveServerMessage \<Rightarrow> GoAwayNotice option" where
  "goAwayOf msg =
     (case goAway msg of
        Some g \<Rightarrow> Some g
      | None \<Rightarrow> (case serverContent msg of None \<Rightarrow> None | Some sc \<Rightarrow> contentGoAway sc))"

text \<open>The part of \<^verbatim>\<open>onmessage\<close> both adapters share: token, GoAway, rate limit.\<close>

definition handleControl :: "LiveServerMessage \<Rightarrow> world \<Rightarrow> world" where
  "handleControl msg w =
     (let w1 = (case resumptionUpdateOf msg of
                  None \<Rightarrow> w
                | Some u \<Rightarrow>
                    (case newHandle u of
                       None \<Rightarrow> w
                     | Some h \<Rightarrow> if resumable u \<and> truthy h then setResumptionToken h w else w));
          w2 = (case goAwayOf msg of
                  None \<Rightarrow> w1
                | Some g \<Rightarrow>
                    (case timeLeft g of None \<Rightarrow> w1 | Some t \<Rightarrow> handleGoAwayMessage t w1))
      in case serverContent msg of
           None \<Rightarrow> w2
         | Some sc \<Rightarrow>
             (case errorMessage sc of
                None \<Rightarrow> w2
              | Some m \<Rightarrow>
                  if sublist ''rate limit'' m then handleRateLimitError (Error m) w2 else w2))"

text \<open>\<^verbatim>\<open>modelTurn.parts?.[modelTurn.parts.length - 1]?.text\<close>, when it is truthy.\<close>

definition lastPartText :: "LiveServerMessage \<Rightarrow> string option" where
  "lastPartText msg =
     (case serverContent msg of
        None \<Rightarrow> None
      | Some sc \<Rightarrow>
          (case modelTurn sc of
             None \<Rightarrow> None
           | Some ps \<Rightarrow>
               if ps = [] then None
               else (case last ps of
                       None \<Rightarrow> None
                     | Some t \<Rightarrow> if truthy t then Some t else None)))"

text \<open>\<^verbatim>\<open>message.serverContent?.modelTurn?.parts?.[0]?.text\<close>, when it is truthy.\<close>

definition firstPartText :: "LiveServerMessage \<Rightarrow> string option" where
  "firstPartText msg =
     (case serverContent msg of
        None \<Rightarrow> None
      | Some sc \<Rightarrow>
          (case modelTurn sc of
             None \<Rightarrow> None
           | Some [] \<Rightarrow> None
           | Some (None # _) \<Rightarrow> None
           | Some (Some t # _) \<Rightarrow> if truthy t then Some t else None))"

definition isGenerationComplete :: "LiveServerMessage \<Rightarrow> bool" where
  "isGenerationComplete msg =
     (case serverContent msg of None \<Rightarrow> False | Some sc \<Rightarrow> generationComplete sc)"

text \<open>A promise settles once: resolving or rejecting a settled promise does nothing.\<close>

definition settle :: "nat \<Rightarrow> error + string \<Rightarrow> world \<Rightarrow> world" where
  "settle p v w =
     (case settled w p of
        None \<Rightarrow> w\<lparr>settled := (settled w)(p \<mapsto> v)\<rparr>
      | Some _ \<Rightarrow> w)"

section \<open>TextSessionManager\<close>

text \<open>
  The assignments to the text adapter's own fields. They are methods of
  \<^verbatim>\<open>TextSessionManager\<close>; on the other class there is nothing to assign.
\<close>

fun addMessage :: "Content \<Rightarrow> adapter \<Rightarrow> adapter" where
  "addMessage c (TextSessionManager ms p r) = TextSessionManager (ms @ [c]) p r"
| "addMessage c (CallSessionManager tr) = CallSessionManager tr"

fun awaitResponse :: "nat \<Rightarrow> adapter \<Rightarrow> adapter" where
  "awaitResponse p (TextSessionManager ms _ _) = TextSessionManager ms (Some p) (Some [])"
| "awaitResponse p (CallSessionManager tr) = CallSessionManager tr"

fun appendResponse :: "string \<Rightarrow> adapter \<Rightarrow> adapter" where
  "appendResponse t (TextSessionManager ms p (Some r)) = TextSessionManager ms p (Some (r @ t))"
| "appendResponse t (TextSessionManager ms p None) = TextSessionManager ms p None"
| "appendResponse t (CallSessionManager tr) = CallSessionManager tr"

definition pushMessage :: "Content \<Rightarrow> world \<Rightarrow> world" where
  "pushMessage c w = w\<lparr>self := addMessage c (self w)\<rparr>"

text \<open>
  \<^verbatim>\<open>sendMessage(message)\<close> returns the promise \<open>nextPromise w\<close>; an exception before the
  message is sent rejects it at once, otherwise it stays pending until a callback
  settles it.
\<close>

definition sendMessage :: "string \<Rightarrow> world \<Rightarrow> nat \<times> world" where
  "sendMessage message w =
     (let p = nextPromise w;
          w0 = w\<lparr>nextPromise := Suc p\<rparr>;
          started =
            (case session w0 of
               Some _ \<Rightarrow> Inr w0
             | None \<Rightarrow>
                 (case getModel w0 of
                    Inl e \<Rightarrow> Inl (e, w0)
                  | Inr m \<Rightarrow>
                      startSession
                        \<lparr>model = m, contextText = None, enableResumption = None,
                         maxReconnectAttempts = None\<rparr> w0))
      in case started of
           Inl (e, w1) \<Rightarrow> (p, settle p (Inl e) w1)
         | Inr w1 \<Rightarrow>
             (let w2 = pushMessage \<lparr>role = ''user'', parts = [message]\<rparr> w1
              in case session w2 of
                   None \<Rightarrow> (p, settle p (Inl (Error ''No active session available'')) w2)
                 | Some s \<Rightarrow>
                     (case sendError s of
                        Some e \<Rightarrow> (p, settle p (Inl e) w2)
                      | None \<Rightarrow>
                          (p, w2\<lparr>wired := wired w2 @ [SendClientContent (conn s) message],
                                self := awaitResponse p (self w2)\<rparr>))))"

text \<open>The \<^verbatim>\<open>onmessage\<close> callback of the text adapter.\<close>

definition onmessageText :: "LiveServerMessage \<Rightarrow> world \<Rightarrow> world" where
  "onmessageText msg w =
     (let w1 = handleControl msg w;
          w2 = (case lastPartText msg of
                  None \<Rightarrow> w1
                | Some t \<Rightarrow>
                    w1\<lparr>transcriptUpdates := transcriptUpdates w1 @ [(t, None)],
                       self := appendResponse t (self w1)\<rparr>);
          w3 = (case self w2 of
                  TextSessionManager ms (Some p) r \<Rightarrow>
                    if isGenerationComplete msg
                    then (let responseText = (case r of None \<Rightarrow> [] | Some t \<Rightarrow> t)
                          in settle p (Inr responseText)
                               (w2\<lparr>self := TextSessionManager
                                              (ms @ [\<lparr>role = ''model'', parts = [responseText]\<rparr>])
                                              None None\<rparr>))
                    else w2
                | TextSessionManager ms None r \<Rightarrow> w2
                | CallSessionManager tr \<Rightarrow> w2)
      in emitEvent
           (MessageReceived
              \<lparr>messageId = EpochId (now w3), sender = Model,
               content = (case firstPartText msg of None \<Rightarrow> [] | Some t \<Rightarrow> t),
               timestamp = now w3\<rparr>) w3)"

text \<open>
  The \<^verbatim>\<open>onerror\<close> callback of the text adapter. The pending fields are not touched by
  the reconnection, so rejecting after the handler has run gives the state the
  interleaved run gives.
\<close>

definition onerrorText :: "error \<Rightarrow> world \<Rightarrow> world" where
  "onerrorText e w =
     (let w1 = handleNetworkError e w
      in case self w1 of
           TextSessionManager ms (Some p) r \<Rightarrow>
             settle p (Inl e) (w1\<lparr>self := TextSessionManager ms None None\<rparr>)
         | TextSessionManager ms None r \<Rightarrow> w1
         | CallSessionManager tr \<Rightarrow> w1)"

definition onclose :: "world \<Rightarrow> world" where
  "onclose w =
     (case sessionState w of
        None \<Rightarrow> w
      | Some st \<Rightarrow> w\<lparr>sessionState := Some (st\<lparr>isActive := False\<rparr>)\<rparr>)"

definition onopen :: "world \<Rightarrow> world" where
  "onopen w =
     (case sessionState w of
        None \<Rightarrow> w
      | Some st \<Rightarrow> w\<lparr>sessionState := Some (st\<lparr>isActive := True\<rparr>)\<rparr>)"

section \<open>CallSessionManager\<close>

fun addTurn :: "Turn \<Rightarrow> adapter \<Rightarrow> adapter" where
  "addTurn t (TextSessionManager ms p r) = TextSessionManager ms p r"
| "addTurn t (CallSessionManager tr) = CallSessionManager (tr @ [t])"

definition pushTurn :: "Turn \<Rightarrow> world \<Rightarrow> world" where
  "pushTurn t w = w\<lparr>self := addTurn t (self w)\<rparr>"

definition sendAudio :: "nat list \<Rightarrow> world \<Rightarrow> error \<times> world + world" where
  "sendAudio chunk w =
     (let started =
            (case session w of
               Some _ \<Rightarrow> Inr w
             | None \<Rightarrow>
                 (case getModel w of
                    Inl e \<Rightarrow> Inl (e, w)
                  | Inr m \<Rightarrow>
                      startSession
                        \<lparr>model = m, contextText = None, enableResumption = Some False,
                         maxReconnectAttempts = None\<rparr> w))
      in case started of
           Inl (e, w1) \<Rightarrow> Inl (e, w1)
         | Inr w1 \<Rightarrow>
             (case session w1 of
                None \<Rightarrow> Inl (Error ''No active session available'', w1)
              | Some s \<Rightarrow>
                  (case sendError s of
                     Some e \<Rightarrow> Inl (e, logMsg Err ''Failed to send audio chunk'' (DError e) w1)
                   | None \<Rightarrow> Inr (w1\<lparr>wired := wired w1 @ [SendRealtimeInput (conn s) chunk]\<rparr>))))"

definition transcriptionText :: "string option \<Rightarrow> string option" where
  "transcriptionText t =
     (case t of None \<Rightarrow> None | Some x \<Rightarrow> if truthy x then Some x else None)"

text \<open>The \<^verbatim>\<open>onmessage\<close> callback of the call adapter.\<close>

definition onmessageCall :: "LiveServerMessage \<Rightarrow> world \<Rightarrow> world" where
  "onmessageCall msg w =
     (let w1 = handleControl msg w;
          out = (case serverContent msg of
                   None \<Rightarrow> None
                 | Some sc \<Rightarrow> transcriptionText (outputTranscription sc));
          inp = (case serverContent msg of
                   None \<Rightarrow> None
                 | Some sc \<Rightarrow> transcriptionText (inputTranscription sc));
          w2 = (case out of
                  None \<Rightarrow> w1
                | Some t \<Rightarrow>
                    (pushTurn \<lparr>speaker = Model, said = t\<rparr> w1)
                      \<lparr>transcriptUpdates := transcriptUpdates w1 @ [(t, Some Model)]\<rparr>);
          w3 = (case inp of
                  None \<Rightarrow> w2
                | Some t \<Rightarrow>
                    (pushTurn \<lparr>speaker = User, said = t\<rparr> w2)
                      \<lparr>transcriptUpdates := transcriptUpdates w2 @ [(t, Some User)]\<rparr>)
      in emitEvent
           (MessageReceived
              \<lparr>messageId = EpochId (now w3), sender = Model,
               content = (case firstPartText msg of
                            Some t \<Rightarrow> t
                          | None \<Rightarrow> (case out of None \<Rightarrow> [] | Some t \<Rightarrow> t)),
               timestamp = now w3\<rparr>) w3)"

definition onerrorCall :: "error \<Rightarrow> world \<Rightarrow> world" where
  "onerrorCall e w = handleNetworkError e w"

section \<open>SummarizationService\<close>

text \<open>
  The service holds the client; \<open>generateContent\<close> is how
  \<^verbatim>\<open>genAI.models.generateContent\<close> settles for a prompt: \<open>Inr\<close> the text of the result,
  \<open>Inl\<close> the rejection.
\<close>

record SummarizationService =
  generateContent :: "string \<Rightarrow> error + string"

definition senderName :: "Sender \<Rightarrow> string" where
  "senderName s = (case s of User \<Rightarrow> ''user'' | Model \<Rightarrow> ''model'')"

fun joinLines :: "string list \<Rightarrow> string" where
  "joinLines [] = []"
| "joinLines [x] = x"
| "joinLines (x # y # ys) = x @ [CHR 0x0A] @ joinLines (y # ys)"

definition createPrompt :: "Message list \<Rightarrow> string" where
  "createPrompt transcript =
     ''Please provide a concise summary of the following conversation. '' @ [CHR 0x0A] @
     ''The summary should capture the main topics discussed and any conclusions reached.'' @
     [CHR 0x0A] @
     ''Format the summary as a single paragraph.'' @ [CHR 0x0A] @ [CHR 0x0A] @
     ''Conversation:'' @ [CHR 0x0A] @
     joinLines (map (\<lambda>m. senderName (sender m) @ '': '' @ content m) transcript)"

text \<open>
  \<^verbatim>\<open>summarize(transcript)\<close>: the result of the promise and the lines written with
  \<^verbatim>\<open>console.error\<close>.
\<close>

definition summarize ::
  "SummarizationService \<Rightarrow> Message list \<Rightarrow> (error + string) \<times> log_entry list" where
  "summarize svc transcript =
     (if transcript = [] then (Inr [], [])
      else (case generateContent svc (createPrompt transcript) of
              Inr t \<Rightarrow> (Inr t, [])
            | Inl e \<Rightarrow>
                (Inr ''Summary unavailable'',
                 [Log Err ''Error summarizing transcript:'' (DError e)])))"

section \<open>InteractionManager\<close>

datatype dom_event =
    CallSummary string "Message list"
  | CallSessionReady
  | ChatCleared

text \<open>
  The orchestrator: the two managers it was given (\<open>None\<close> once set to null), the
  summarization service, the events dispatched on \<^verbatim>\<open>document\<close>, its log and the console,
  the clock, and the transcripts \<^verbatim>\<open>summarize\<close> was called with. A manager the
  orchestrator has dropped is kept in \<open>dropped\<close>, in the state it was left in. Each
  manager comes with its own view of the process (the \<open>world\<close> it is part of): the
  two adapters read and write the token store under their own names only.
\<close>

record InteractionManager =
  textSessionManager :: "world option"
  callSessionManager :: "world option"
  summarizationService :: "SummarizationService option"
  dispatched :: "dom_event list"
  journal :: "log_entry list"
  clock :: int
  summarizeCalls :: "Message list list"
  dropped :: "world list"

definition imLog :: "level \<Rightarrow> string \<Rightarrow> detail \<Rightarrow> InteractionManager \<Rightarrow> InteractionManager" where
  "imLog l m d im = im\<lparr>journal := journal im @ [Log l m d]\<rparr>"

definition endCallSession :: "InteractionManager \<Rightarrow> InteractionManager" where
  "endCallSession im =
     (let im1 = imLog Info ''Ending call session'' NoDetail im
      in case callSessionManager im1 of
           None \<Rightarrow> im1
         | Some m \<Rightarrow> im1\<lparr>callSessionManager := None, dropped := dropped im1 @ [endSession m]\<rparr>)"

text \<open>\<^verbatim>\<open>InteractionManager.getCallTranscript()\<close>\<close>

definition currentCallTranscript :: "InteractionManager \<Rightarrow> Turn list" where
  "currentCallTranscript im =
     (case callSessionManager im of
        None \<Rightarrow> []
      | Some m \<Rightarrow> getCallTranscript m)"

text \<open>The conversion \<^verbatim>\<open>callTranscript.map((turn, index) => ...)\<close>.\<close>

definition toMessages :: "int \<Rightarrow> Turn list \<Rightarrow> Message list" where
  "toMessages t turns =
     map (\<lambda>(i, turn). \<lparr>messageId = TurnId i, sender = speaker turn, content = said turn,
                        timestamp = t\<rparr>)
       (enumerate 0 turns)"

text \<open>
  The last statements of \<^verbatim>\<open>endSessionAndSummarize()\<close>, from the guard
  \<^verbatim>\<open>this.summarizationService && transcript.length > 0\<close> on: the summary is requested,
  dispatched as \<^verbatim>\<open>call-summary\<close> and returned; a rejection of \<^verbatim>\<open>summarize\<close> is logged
  and thrown again; without a service or a transcript the result is the empty string.
\<close>

definition summarizeTranscript ::
  "Message list \<Rightarrow> InteractionManager \<Rightarrow> (error + string) \<times> InteractionManager" where
  "summarizeTranscript transcript im =
     (case summarizationService im of
        None \<Rightarrow> (Inr [], im)
      | Some svc \<Rightarrow>
          if transcript = [] then (Inr [], im)
          else
            (let (r, console) = summarize svc transcript;
                 im1 = im\<lparr>summarizeCalls := summarizeCalls im @ [transcript],
                          journal := journal im @ console\<rparr>
             in case r of
                  Inr summary \<Rightarrow>
                    (Inr summary,
                     (imLog Info ''Summary generated'' NoDetail im1)
                       \<lparr>dispatched := dispatched im1 @ [CallSummary summary transcript]\<rparr>)
                | Inl e \<Rightarrow> (Inl e, imLog Err ''Failed to generate summary'' (DError e) im1)))"

definition endSessionAndSummarize ::
  "InteractionManager \<Rightarrow> (error + string) \<times> InteractionManager" where
  "endSessionAndSummarize im =
     (let im1 = imLog Info ''Ending session and generating summary'' NoDetail im;
          im2 = endCallSession im1;
          callTranscript = currentCallTranscript im2;
          transcript = toMessages (clock im2) callTranscript
      in summarizeTranscript transcript im2)"

section \<open>Ending a session\<close>

lemma endSession_idle:
  "sessionState w = None \<Longrightarrow> endSession w = logMsg Warn ''No active session to end'' NoDetail w"
  by (simp add: endSession_def)

lemma endSession_active:
  assumes "sessionState w = Some st"
  shows "sessionState (endSession w) = None"
    and "reconnectTimer (endSession w) = None"
    and "timers (endSession w) =
           (case reconnectTimer w of
              None \<Rightarrow> timers w
            | Some h \<Rightarrow> filter (\<lambda>p. fst p \<noteq> h) (timers w))"
    and "session (endSession w) = None"
    and "self (endSession w) = clearHistory (self w)"
    and "wired (endSession w) =
           wired w @ (case session w of None \<Rightarrow> [] | Some s \<Rightarrow> [Close (conn s)])"
    and "resumptionTokenStore (endSession w) =
           (case resumptionToken st of
              None \<Rightarrow> resumptionTokenStore w
            | Some tok \<Rightarrow>
                if truthy tok
                then (resumptionTokenStore w)
                       (componentName w \<mapsto> \<lparr>token = tok, storedAt = now w\<rparr>)
                else resumptionTokenStore w)"
    and "emitted (endSession w) = emitted w @ [SessionEnded (sessionId st)]"
    and "nextTimer (endSession w) = nextTimer w"
    and "now (endSession w) = now w"
    and "remote (endSession w) = remote w"
    and "connects (endSession w) = connects w"
proof -
  define w1 where "w1 = logMsg Info ''Ending session'' NoDetail w"
  define w2 where "w2 = (case reconnectTimer w1 of
                           None \<Rightarrow> w1
                         | Some h \<Rightarrow> (clearTimeout h w1)\<lparr>reconnectTimer := None\<rparr>)"
  define w4 where "w4 = (performSessionCleanup w2)\<lparr>sessionState := None\<rparr>"
  have e: "endSession w =
             emitEvent (SessionEnded (sessionId st))
               (case resumptionToken st of
                  None \<Rightarrow> w4
                | Some tok \<Rightarrow> if truthy tok then storeResumptionToken tok w4 else w4)"
    using assms unfolding w4_def w2_def w1_def by (simp add: endSession_def Let_def)
  have w2: "reconnectTimer w2 = None" "session w2 = session w" "wired w2 = wired w"
    "timers w2 = (case reconnectTimer w of
                    None \<Rightarrow> timers w
                  | Some h \<Rightarrow> filter (\<lambda>p. fst p \<noteq> h) (timers w))"
    "emitted w2 = emitted w" "resumptionTokenStore w2 = resumptionTokenStore w"
    "now w2 = now w" "self w2 = self w" "nextTimer w2 = nextTimer w" "remote w2 = remote w"
    "connects w2 = connects w"
    by (simp_all add: w2_def w1_def logMsg_def clearTimeout_def split: option.splits)
  have w4: "reconnectTimer w4 = None" "session w4 = None" "sessionState w4 = None"
    "wired w4 = wired w @ (case session w of None \<Rightarrow> [] | Some s \<Rightarrow> [Close (conn s)])"
    "timers w4 = timers w2" "emitted w4 = emitted w"
    "resumptionTokenStore w4 = resumptionTokenStore w"
    "now w4 = now w" "self w4 = clearHistory (self w)" "nextTimer w4 = nextTimer w"
    "remote w4 = remote w" "connects w4 = connects w"
    by (simp_all add: w4_def w2 performSessionCleanup_fields)
  show "sessionState (endSession w) = None"
    and "reconnectTimer (endSession w) = None"
    and "timers (endSession w) =
           (case reconnectTimer w of
              None \<Rightarrow> timers w
            | Some h \<Rightarrow> filter (\<lambda>p. fst p \<noteq> h) (timers w))"
    and "session (endSession w) = None"
    and "self (endSession w) = clearHistory (self w)"
    and "wired (endSession w) =
           wired w @ (case session w of None \<Rightarrow> [] | Some s \<Rightarrow> [Close (conn s)])"
    and "resumptionTokenStore (endSession w) =
           (case resumptionToken st of
              None \<Rightarrow> resumptionTokenStore w
            | Some tok \<Rightarrow>
                if truthy tok
                then (resumptionTokenStore w)
                       (componentName w \<mapsto> \<lparr>token = tok, storedAt = now w\<rparr>)
                else resumptionTokenStore w)"
    and "emitted (endSession w) = emitted w @ [SessionEnded (sessionId st)]"
    and "nextTimer (endSession w) = nextTimer w"
    and "now (endSession w) = now w"
    and "remote (endSession w) = remote w"
    and "connects (endSession w) = connects w"
    by (simp_all add: e w4 w2 emitEvent_def storeResumptionToken_def componentName_def
        split: option.splits)
qed

lemma endSession_leaves_none: "sessionState (endSession w) = None"
  by (cases "sessionState w") (simp_all add: endSession_idle endSession_active logMsg_def)

text \<open>Example states: the transport, the ladder of models, and managers at work.\<close>

definition acceptingRemote :: "nat \<Rightarrow> error + Session" where
  "acceptingRemote n = Inr \<lparr>conn = n, closeError = None, sendError = None\<rparr>"

definition refusingRemote :: "nat \<Rightarrow> error + Session" where
  "refusingRemote n = Inl (Error ''offline'')"

fun modelLadder :: "EnergyMode \<Rightarrow> nat \<Rightarrow> string option" where
  "modelLadder Sts n =
     (if n = 3 then Some ''sts-top'' else if n = 2 then Some ''sts-mid''
      else if n = 1 then Some ''sts-low'' else None)"
| "modelLadder Tts n =
     (if n = 2 then Some ''tts-top'' else if n = 1 then Some ''tts-low'' else None)"

text \<open>A manager as its constructor leaves it, at time 1000.\<close>

definition idleWorld :: "adapter \<Rightarrow> (nat \<Rightarrow> error + Session) \<Rightarrow> world" where
  "idleWorld a r =
     \<lparr>self = a, sessionState = None, reconnectTimer = None, session = None,
      resumptionTokenStore = Map.empty, now = 1000, timers = [], nextTimer = 1,
      emitted = [], logged = [], remote = r, connects = 0, wired = [],
      transcriptUpdates = [], settled = Map.empty, nextPromise = 0,
      energyLevel = maxLevel, modelTable = modelLadder, systemPrompt = ''persona''\<rparr>"

text \<open>
  A call in progress: one turn heard, the token \<open>''handle-1''\<close> received, and a
  reconnection scheduled by a GoAway.
\<close>

definition liveState :: SessionState where
  "liveState =
     \<lparr>sessionId = SessionId ''sts-session-'' 1000, resumptionToken = Some ''handle-1'',
      currentModel = ''sts-top'', isActive = True, connectionAttempts = 0\<rparr>"

definition liveCall :: "(nat \<Rightarrow> error + Session) \<Rightarrow> world" where
  "liveCall r =
     (idleWorld (CallSessionManager [\<lparr>speaker = User, said = ''hello''\<rparr>]) r)
       \<lparr>sessionState := Some liveState,
        session := Some \<lparr>conn = 0, closeError = None, sendError = None\<rparr>,
        reconnectTimer := Some (TimerId 1), timers := [(TimerId 1, 1500)], nextTimer := 2,
        connects := 1,
        resumptionTokenStore := [''CallSessionManager'' \<mapsto> \<lparr>token = ''handle-1'', storedAt = 1000\<rparr>]\<rparr>"

section \<open>Starting a session\<close>

lemma createNewSession_fields:
  "resumptionTokenStore (worldOf (createNewSession config w)) = resumptionTokenStore w"
  "self (worldOf (createNewSession config w)) = self w"
  "timers (worldOf (createNewSession config w)) = timers w"
  "reconnectTimer (worldOf (createNewSession config w)) = reconnectTimer w"
  "nextTimer (worldOf (createNewSession config w)) = nextTimer w"
  "emitted (worldOf (createNewSession config w)) = emitted w"
  "now (worldOf (createNewSession config w)) = now w"
  "remote (worldOf (createNewSession config w)) = remote w"
  "connects (worldOf (createNewSession config w)) = Suc (connects w)"
  "wired (worldOf (createNewSession config w)) = wired w @ [Connect (model config) (getConfig w)]"
  "energyLevel (worldOf (createNewSession config w)) = energyLevel w"
  "modelTable (worldOf (createNewSession config w)) = modelTable w"
  by (simp_all add: createNewSession_def worldOf_def logMsg_def getConfig_def
      isAffectiveDialogEnabled_def Let_def split: sum.splits)

lemma sessionStarted_fields:
  "resumptionTokenStore (worldOf (sessionStarted r)) = resumptionTokenStore (worldOf r)"
  "self (worldOf (sessionStarted r)) = self (worldOf r)"
  "timers (worldOf (sessionStarted r)) = timers (worldOf r)"
  "reconnectTimer (worldOf (sessionStarted r)) = reconnectTimer (worldOf r)"
  "nextTimer (worldOf (sessionStarted r)) = nextTimer (worldOf r)"
  "now (worldOf (sessionStarted r)) = now (worldOf r)"
  "remote (worldOf (sessionStarted r)) = remote (worldOf r)"
  "connects (worldOf (sessionStarted r)) = connects (worldOf r)"
  "wired (worldOf (sessionStarted r)) = wired (worldOf r)"
  "session (worldOf (sessionStarted r)) = session (worldOf r)"
  "sessionState (worldOf (sessionStarted r)) = sessionState (worldOf r)"
  "energyLevel (worldOf (sessionStarted r)) = energyLevel (worldOf r)"
  "modelTable (worldOf (sessionStarted r)) = modelTable (worldOf r)"
  by (simp_all add: sessionStarted_def worldOf_def logMsg_def emitEvent_def
      split: sum.splits prod.splits option.splits)

text \<open>
  Claim C7. \<^verbatim>\<open>startSession(config)\<close> looks up the token stored under the adapter's
  name. A token stored at most 7200000 ms (2 hours) ago that is non-empty is passed to
  \<^verbatim>\<open>resumeSession(config, token)\<close> when \<^verbatim>\<open>config.enableResumption\<close> is true; in every
  other case \<^verbatim>\<open>createNewSession(config)\<close> is called. A token stored more than 2 hours
  ago is deleted from the store, which then holds nothing under that name, and the
  session is created anew.
\<close>

theorem startSession_resumption:
  "(\<forall>stored.
      resumptionTokenStore w (componentName w) = Some stored \<and>
      now w - storedAt stored \<le> 7200000 \<and> truthy (token stored) \<and>
      enableResumption config = Some True \<longrightarrow>
      startSession config w =
        sessionStarted
          (resumeSession config (token stored)
             (logMsg Info ''Attempting to resume session'' (DToken (token stored))
                (logMsg Info ''Starting session'' NoDetail w)))) \<and>
   (\<forall>stored.
      resumptionTokenStore w (componentName w) = Some stored \<and>
      now w - storedAt stored \<le> 7200000 \<and>
      (enableResumption config \<noteq> Some True \<or> token stored = []) \<longrightarrow>
      startSession config w =
        sessionStarted (createNewSession config (logMsg Info ''Starting session'' NoDetail w))) \<and>
   (resumptionTokenStore w (componentName w) = None \<longrightarrow>
      startSession config w =
        sessionStarted (createNewSession config (logMsg Info ''Starting session'' NoDetail w))) \<and>
   (\<forall>stored.
      resumptionTokenStore w (componentName w) = Some stored \<and>
      now w - storedAt stored > 7200000 \<longrightarrow>
      startSession config w =
        sessionStarted
          (createNewSession config
             ((logMsg Debug ''Resumption token expired'' NoDetail
                 (logMsg Info ''Starting session'' NoDetail w))
                \<lparr>resumptionTokenStore := (resumptionTokenStore w)(componentName w := None)\<rparr>)) \<and>
      resumptionTokenStore (worldOf (startSession config w)) (componentName w) = None)"
proof (intro conjI allI impI)
  fix stored
  assume "resumptionTokenStore w (componentName w) = Some stored \<and>
      now w - storedAt stored \<le> 7200000 \<and> truthy (token stored) \<and>
      enableResumption config = Some True"
  then show "startSession config w =
        sessionStarted
          (resumeSession config (token stored)
             (logMsg Info ''Attempting to resume session'' (DToken (token stored))
                (logMsg Info ''Starting session'' NoDetail w)))"
    by (simp add: startSession_def getValidResumptionToken_def logMsg_def componentName_def
        RESUMPTION_TOKEN_EXPIRY_MS_def)
next
  fix stored
  assume "resumptionTokenStore w (componentName w) = Some stored \<and>
      now w - storedAt stored \<le> 7200000 \<and>
      (enableResumption config \<noteq> Some True \<or> token stored = [])"
  then show "startSession config w =
        sessionStarted (createNewSession config (logMsg Info ''Starting session'' NoDetail w))"
    by (auto simp: startSession_def getValidResumptionToken_def logMsg_def componentName_def
        RESUMPTION_TOKEN_EXPIRY_MS_def truthy_def)
next
  assume "resumptionTokenStore w (componentName w) = None"
  then show "startSession config w =
        sessionStarted (createNewSession config (logMsg Info ''Starting session'' NoDetail w))"
    by (simp add: startSession_def getValidResumptionToken_def logMsg_def componentName_def)
next
  fix stored
  assume a: "resumptionTokenStore w (componentName w) = Some stored \<and>
      now w - storedAt stored > 7200000"
  then show e: "startSession config w =
        sessionStarted
          (createNewSession config
             ((logMsg Debug ''Resumption token expired'' NoDetail
                 (logMsg Info ''Starting session'' NoDetail w))
                \<lparr>resumptionTokenStore := (resumptionTokenStore w)(componentName w := None)\<rparr>))"
    by (simp add: startSession_def getValidResumptionToken_def logMsg_def componentName_def
        RESUMPTION_TOKEN_EXPIRY_MS_def)
  show "resumptionTokenStore (worldOf (startSession config w)) (componentName w) = None"
    by (simp add: e sessionStarted_fields createNewSession_fields)
qed

text \<open>
  A text manager that finds a token stored 5 seconds earlier by a previous session, and
  one that finds a token three hours old.
\<close>

definition returningText :: world where
  "returningText =
     (idleWorld (TextSessionManager [] None None) acceptingRemote)
       \<lparr>resumptionTokenStore :=
          [''TextSessionManager'' \<mapsto> \<lparr>token = ''handle-7'', storedAt = 1000\<rparr>],
        now := 6000\<rparr>"

definition staleText :: world where
  "staleText = returningText\<lparr>now := 10801000\<rparr>"

definition resumingConfig :: SessionConfig where
  "resumingConfig =
     \<lparr>model = ''tts-top'', contextText = None, enableResumption = Some True,
      maxReconnectAttempts = None\<rparr>"

theorem startSession_resumption_witness:
  "resumptionTokenStore returningText (componentName returningText) =
     Some \<lparr>token = ''handle-7'', storedAt = 1000\<rparr> \<and>
   now returningText - 1000 \<le> 7200000 \<and> truthy ''handle-7'' \<and>
   enableResumption resumingConfig = Some True \<and>
   startSession resumingConfig returningText =
     sessionStarted
       (resumeSession resumingConfig ''handle-7''
          (logMsg Info ''Attempting to resume session'' (DToken ''handle-7'')
             (logMsg Info ''Starting session'' NoDetail returningText))) \<and>
   startSession (resumingConfig\<lparr>enableResumption := None\<rparr>) returningText =
     sessionStarted
       (createNewSession (resumingConfig\<lparr>enableResumption := None\<rparr>)
          (logMsg Info ''Starting session'' NoDetail returningText)) \<and>
   now staleText - 1000 > 7200000 \<and>
   resumptionTokenStore (worldOf (startSession resumingConfig staleText))
     ''TextSessionManager'' = None \<and>
   resumptionTokenStore (idleWorld (CallSessionManager []) acceptingRemote)
     (componentName (idleWorld (CallSessionManager []) acceptingRemote)) = None \<and>
   startSession resumingConfig (idleWorld (CallSessionManager []) acceptingRemote) =
     sessionStarted
       (createNewSession resumingConfig
          (logMsg Info ''Starting session'' NoDetail
             (idleWorld (CallSessionManager []) acceptingRemote)))"
proof -
  have a: "componentName returningText = ''TextSessionManager''"
    "componentName staleText = ''TextSessionManager''"
    "resumptionTokenStore returningText ''TextSessionManager'' =
       Some \<lparr>token = ''handle-7'', storedAt = 1000\<rparr>"
    "resumptionTokenStore staleText ''TextSessionManager'' =
       Some \<lparr>token = ''handle-7'', storedAt = 1000\<rparr>"
    "now returningText = 6000" "now staleText = 10801000"
    "enableResumption resumingConfig = Some True"
    "resumptionTokenStore (idleWorld (CallSessionManager []) acceptingRemote)
       (componentName (idleWorld (CallSessionManager []) acceptingRemote)) = None"
    by (simp_all add: returningText_def staleText_def idleWorld_def componentName_def
        resumingConfig_def)
  have r1: "resumptionTokenStore returningText (componentName returningText) =
       Some \<lparr>token = ''handle-7'', storedAt = 1000\<rparr> \<and>
     now returningText - storedAt \<lparr>token = ''handle-7'', storedAt = 1000\<rparr> \<le> 7200000 \<and>
     truthy (token \<lparr>token = ''handle-7'', storedAt = 1000\<rparr>) \<and>
     enableResumption resumingConfig = Some True"
    by (simp add: a truthy_def)
  have r2: "resumptionTokenStore returningText (componentName returningText) =
       Some \<lparr>token = ''handle-7'', storedAt = 1000\<rparr> \<and>
     now returningText - storedAt \<lparr>token = ''handle-7'', storedAt = 1000\<rparr> \<le> 7200000 \<and>
     (enableResumption (resumingConfig\<lparr>enableResumption := None\<rparr>) \<noteq> Some True \<or>
      token \<lparr>token = ''handle-7'', storedAt = 1000\<rparr> = [])"
    by (simp add: a)
  have r3: "resumptionTokenStore staleText (componentName staleText) =
       Some \<lparr>token = ''handle-7'', storedAt = 1000\<rparr> \<and>
     now staleText - storedAt \<lparr>token = ''handle-7'', storedAt = 1000\<rparr> > 7200000"
    by (simp add: a)
  have s1: "startSession resumingConfig returningText =
     sessionStarted
       (resumeSession resumingConfig ''handle-7''
          (logMsg Info ''Attempting to resume session'' (DToken ''handle-7'')
             (logMsg Info ''Starting session'' NoDetail returningText)))"
    using startSession_resumption [of returningText resumingConfig] r1 by fastforce
  have s2: "startSession (resumingConfig\<lparr>enableResumption := None\<rparr>) returningText =
     sessionStarted
       (createNewSession (resumingConfig\<lparr>enableResumption := None\<rparr>)
          (logMsg Info ''Starting session'' NoDetail returningText))"
    using startSession_resumption [of returningText "resumingConfig\<lparr>enableResumption := None\<rparr>"]
      r2 by blast
  have s3: "resumptionTokenStore (worldOf (startSession resumingConfig staleText))
     ''TextSessionManager'' = None"
    using startSession_resumption [of staleText resumingConfig] r3 a(2) by metis
  have s4: "startSession resumingConfig (idleWorld (CallSessionManager []) acceptingRemote) =
     sessionStarted
       (createNewSession resumingConfig
          (logMsg Info ''Starting session'' NoDetail
             (idleWorld (CallSessionManager []) acceptingRemote)))"
    using startSession_resumption [of "idleWorld (CallSessionManager []) acceptingRemote"
        resumingConfig] a(8) by blast
  show ?thesis
    using s1 s2 s3 s4 a by (simp add: truthy_def)
qed

section \<open>Resuming and reconnecting\<close>

text \<open>The state without its log, and the outcome of an operation without its log.\<close>

definition sansLog :: "world \<Rightarrow> world" where
  "sansLog w = w\<lparr>logged := []\<rparr>"

definition outcomeSansLog :: "error \<times> world + world \<Rightarrow> error \<times> world + world" where
  "outcomeSansLog r = (case r of Inl (e, w) \<Rightarrow> Inl (e, sansLog w) | Inr w \<Rightarrow> Inr (sansLog w))"

lemma createNewSession_sansLog:
  "outcomeSansLog (createNewSession config (logMsg l m d w)) =
   outcomeSansLog (createNewSession config w)"
proof (cases "remote w (connects w)")
  case (Inl e)
  then show ?thesis
    by (simp add: createNewSession_def outcomeSansLog_def sansLog_def logMsg_def getConfig_def
        isAffectiveDialogEnabled_def sessionPrefix_def Let_def)
next
  case (Inr s)
  then show ?thesis
    by (simp add: createNewSession_def outcomeSansLog_def sansLog_def logMsg_def getConfig_def
        isAffectiveDialogEnabled_def sessionPrefix_def Let_def)
qed

lemma createNewSession_logged:
  "logged (worldOf (createNewSession config w)) =
     logged w @
     [Log Info (if isText (self w) then ''Creating new text session''
                else ''Creating new STS session'') NoDetail]"
  by (simp add: createNewSession_def worldOf_def logMsg_def Let_def split: sum.splits)

text \<open>
  Claim C10. For either adapter, every configuration and every token,
  \<^verbatim>\<open>resumeSession(config, token)\<close> settles as \<^verbatim>\<open>createNewSession(config)\<close> does and
  leaves the same state, the log apart: it asks the transport for the same conduit, a
  request that carries the model and the configuration and no token. The token appears
  only in the line \<^verbatim>\<open>resumeSession\<close> logs before it calls \<^verbatim>\<open>createNewSession\<close>.
\<close>

theorem resumeSession_as_createNewSession:
  "outcomeSansLog (resumeSession config tok w) = outcomeSansLog (createNewSession config w) \<and>
   outcomeSansLog (resumeSession config tok w) = outcomeSansLog (resumeSession config tok' w) \<and>
   wired (worldOf (resumeSession config tok w)) =
     wired w @ [Connect (model config) (getConfig w)] \<and>
   logged (worldOf (resumeSession config tok w)) =
     logged w @
     [Log Info (if isText (self w) then ''Resuming text session'' else ''Resuming STS session'')
        (DToken tok)] @
     [Log Info (if isText (self w) then ''Creating new text session''
                else ''Creating new STS session'') NoDetail]"
proof (intro conjI)
  show "outcomeSansLog (resumeSession config tok w) = outcomeSansLog (createNewSession config w)"
    by (simp add: resumeSession_def createNewSession_sansLog)
  show "outcomeSansLog (resumeSession config tok w) = outcomeSansLog (resumeSession config tok' w)"
    by (simp add: resumeSession_def createNewSession_sansLog)
  show "wired (worldOf (resumeSession config tok w)) =
     wired w @ [Connect (model config) (getConfig w)]"
    by (simp add: resumeSession_def createNewSession_fields logMsg_def getConfig_def
        isAffectiveDialogEnabled_def)
  show "logged (worldOf (resumeSession config tok w)) =
     logged w @
     [Log Info (if isText (self w) then ''Resuming text session'' else ''Resuming STS session'')
        (DToken tok)] @
     [Log Info (if isText (self w) then ''Creating new text session''
                else ''Creating new STS session'') NoDetail]"
    by (simp add: resumeSession_def createNewSession_logged logMsg_def)
qed

section \<open>The network error handler, case by case\<close>

declare handleNetworkError.simps [simp del] attemptReconnection.simps [simp del]

text \<open>
  Whether a session in state \<open>st\<close> retries after one more network error, and the state
  \<^verbatim>\<open>handleNetworkError\<close> has reached when it branches on that: the attempt counted, the
  error logged, \<^verbatim>\<open>network-error\<close> emitted.
\<close>

definition willRetryAfter :: "SessionState \<Rightarrow> bool" where
  "willRetryAfter st =
     (Suc (connectionAttempts st) < MAX_RECONNECT_ATTEMPTS \<and> truthyOpt (resumptionToken st))"

definition networkErrorNoted :: "error \<Rightarrow> SessionState \<Rightarrow> world \<Rightarrow> world" where
  "networkErrorNoted err st w =
     emitEvent (NetworkError err (willRetryAfter st))
       (logMsg Err ''Network error occurred''
          (DAttempt (Suc (connectionAttempts st)) (willRetryAfter st))
          (w\<lparr>sessionState := Some (st\<lparr>connectionAttempts := Suc (connectionAttempts st)\<rparr>)\<rparr>))"

text \<open>The state in which \<^verbatim>\<open>attemptReconnection\<close> calls \<^verbatim>\<open>reconnectSession\<close>.\<close>

definition reconnecting :: "SessionState \<Rightarrow> world \<Rightarrow> world" where
  "reconnecting st w =
     delay RECONNECT_DELAY_MS (emitEvent (Reconnecting (connectionAttempts st)) w)"

lemma handleNetworkError_cases:
  "sessionState w = None \<Longrightarrow>
     handleNetworkError err w =
       logMsg Err ''Network error without active session'' (DError err) w"
  "sessionState w = Some st \<Longrightarrow> willRetryAfter st \<Longrightarrow>
     handleNetworkError err w = attemptReconnection (networkErrorNoted err st w)"
  "sessionState w = Some st \<Longrightarrow> \<not> willRetryAfter st \<Longrightarrow>
     handleNetworkError err w = endSession (networkErrorNoted err st w)"
  by (auto simp add: handleNetworkError.simps [of err w] willRetryAfter_def
      networkErrorNoted_def Let_def)

lemma reconnectSession_frame:
  "self (worldOf (reconnectSession w)) = clearHistory (self w)"
  "timers (worldOf (reconnectSession w)) = timers w"
  "reconnectTimer (worldOf (reconnectSession w)) = reconnectTimer w"
  "nextTimer (worldOf (reconnectSession w)) = nextTimer w"
  "emitted (worldOf (reconnectSession w)) = emitted w"
  "resumptionTokenStore (worldOf (reconnectSession w)) = resumptionTokenStore w"
  "now (worldOf (reconnectSession w)) = now w"
  "remote (worldOf (reconnectSession w)) = remote w"
proof -
  define w2 where "w2 = performSessionCleanup
                          (logMsg Info (if isText (self w) then ''Reconnecting text session''
                                        else ''Reconnecting STS session'') NoDetail w)"
  have w2: "self w2 = clearHistory (self w)" "timers w2 = timers w"
    "reconnectTimer w2 = reconnectTimer w" "nextTimer w2 = nextTimer w"
    "emitted w2 = emitted w" "resumptionTokenStore w2 = resumptionTokenStore w"
    "now w2 = now w" "remote w2 = remote w"
    by (simp_all add: w2_def performSessionCleanup_fields logMsg_def)
  have "worldOf (reconnectSession w) = w2 \<or>
        (\<exists>config. worldOf (reconnectSession w) = worldOf (createNewSession config w2))"
    by (cases "sessionState w")
       (simp_all add: reconnectSession_def Let_def worldOf_def w2_def
          performSessionCleanup_sessionState logMsg_def, blast)
  then have "self (worldOf (reconnectSession w)) = clearHistory (self w) \<and>
    timers (worldOf (reconnectSession w)) = timers w \<and>
    reconnectTimer (worldOf (reconnectSession w)) = reconnectTimer w \<and>
    nextTimer (worldOf (reconnectSession w)) = nextTimer w \<and>
    emitted (worldOf (reconnectSession w)) = emitted w \<and>
    resumptionTokenStore (worldOf (reconnectSession w)) = resumptionTokenStore w \<and>
    now (worldOf (reconnectSession w)) = now w \<and>
    remote (worldOf (reconnectSession w)) = remote w"
    by (elim disjE exE) (simp_all add: createNewSession_fields w2)
  then show "self (worldOf (reconnectSession w)) = clearHistory (self w)"
    "timers (worldOf (reconnectSession w)) = timers w"
    "reconnectTimer (worldOf (reconnectSession w)) = reconnectTimer w"
    "nextTimer (worldOf (reconnectSession w)) = nextTimer w"
    "emitted (worldOf (reconnectSession w)) = emitted w"
    "resumptionTokenStore (worldOf (reconnectSession w)) = resumptionTokenStore w"
    "now (worldOf (reconnectSession w)) = now w"
    "remote (worldOf (reconnectSession w)) = remote w"
    by simp_all
qed

lemma reconnectSession_accepted:
  assumes "reconnectSession w = Inr w3" and "sessionState w = Some st"
  shows "\<exists>sid s. sessionState w3 =
           Some \<lparr>sessionId = sid, resumptionToken = None, currentModel = currentModel st,
                 isActive = True, connectionAttempts = 0\<rparr> \<and>
         session w3 = Some s \<and> remote w (connects w) = Inr s"
  using assms
  by (auto simp: reconnectSession_def createNewSession_def performSessionCleanup_fields
      performSessionCleanup_sessionState logMsg_def Let_def split: sum.splits)

lemma attemptReconnection_cases:
  "sessionState w = None \<Longrightarrow>
     attemptReconnection w = logMsg Warn ''Cannot reconnect without resumption token'' NoDetail w"
  "sessionState w = Some st \<Longrightarrow> \<not> truthyOpt (resumptionToken st) \<Longrightarrow>
     attemptReconnection w = logMsg Warn ''Cannot reconnect without resumption token'' NoDetail w"
  "sessionState w = Some st \<Longrightarrow> truthyOpt (resumptionToken st) \<Longrightarrow>
   reconnectSession (reconnecting st w) = Inl (e, w3) \<Longrightarrow>
     attemptReconnection w =
       handleNetworkError e (logMsg Err ''Reconnection failed'' (DError e) w3)"
  "sessionState w = Some st \<Longrightarrow> truthyOpt (resumptionToken st) \<Longrightarrow>
   reconnectSession (reconnecting st w) = Inr w3 \<Longrightarrow> sessionState w3 = Some st3 \<Longrightarrow>
     attemptReconnection w =
       emitEvent (SessionResumed (sessionId st3) (resumptionToken st3))
         (w3\<lparr>sessionState := Some (st3\<lparr>connectionAttempts := 0\<rparr>)\<rparr>)"
  by (simp_all add: attemptReconnection.simps [of w] reconnecting_def Let_def)

text \<open>
  Induction along the calls the two handlers make to each other: \<open>P\<close> is proved of
  \<^verbatim>\<open>handleNetworkError\<close>, \<open>Q\<close> of \<^verbatim>\<open>attemptReconnection\<close>.
\<close>

lemma network_induct [case_names idle giveUp retry noState noToken failed resumed]:
  assumes idle: "\<And>err w. sessionState w = None \<Longrightarrow> P err w"
    and giveUp: "\<And>err w st. sessionState w = Some st \<Longrightarrow> \<not> willRetryAfter st \<Longrightarrow> P err w"
    and retry: "\<And>err w st. sessionState w = Some st \<Longrightarrow> willRetryAfter st \<Longrightarrow>
                  Q (networkErrorNoted err st w) \<Longrightarrow> P err w"
    and noState: "\<And>w. sessionState w = None \<Longrightarrow> Q w"
    and noToken: "\<And>w st. sessionState w = Some st \<Longrightarrow> \<not> truthyOpt (resumptionToken st) \<Longrightarrow> Q w"
    and failed: "\<And>w st e w3. sessionState w = Some st \<Longrightarrow> truthyOpt (resumptionToken st) \<Longrightarrow>
                  reconnectSession (reconnecting st w) = Inl (e, w3) \<Longrightarrow>
                  P e (logMsg Err ''Reconnection failed'' (DError e) w3) \<Longrightarrow> Q w"
    and resumed: "\<And>w st w3. sessionState w = Some st \<Longrightarrow> truthyOpt (resumptionToken st) \<Longrightarrow>
                  reconnectSession (reconnecting st w) = Inr w3 \<Longrightarrow> Q w"
  shows "P err w" and "Q w"
proof (induction err w and w rule: handleNetworkError_attemptReconnection.induct)
  case (1 err w)
  show ?case
  proof (cases "sessionState w")
    case None
    then show ?thesis by (rule idle)
  next
    case (Some st)
    show ?thesis
    proof (cases "willRetryAfter st")
      case True
      have "Q (networkErrorNoted err st w)"
        unfolding networkErrorNoted_def willRetryAfter_def
        by (rule "1.IH" [OF Some refl refl refl refl refl])
           (use True in \<open>simp add: willRetryAfter_def\<close>)
      with Some True show ?thesis by (rule retry)
    next
      case False
      with Some show ?thesis by (rule giveUp)
    qed
  qed
next
  case (2 w)
  show ?case
  proof (cases "sessionState w")
    case None
    then show ?thesis by (rule noState)
  next
    case (Some st)
    show ?thesis
    proof (cases "truthyOpt (resumptionToken st)")
      case False
      with Some show ?thesis by (rule noToken)
    next
      case True
      show ?thesis
      proof (cases "reconnectSession (reconnecting st w)")
        case (Inl x)
        obtain e w3 where x: "x = (e, w3)" by (cases x)
        have "P e (logMsg Err ''Reconnection failed'' (DError e) w3)"
          by (rule "2.IH"(1) [OF Some _ refl refl _ x [symmetric]])
             (use True Inl in \<open>simp_all add: reconnecting_def\<close>)
        with Some True Inl x show ?thesis by (simp add: failed)
      next
        case (Inr w3)
        with Some True show ?thesis by (rule resumed)
      qed
    qed
  qed
qed

section \<open>What a network error and a reconnection do to the history\<close>

lemma clearHistory_idem [simp]: "clearHistory (clearHistory a) = clearHistory a"
  by (cases a) simp_all

lemma networkErrorNoted_fields:
  "self (networkErrorNoted err st w) = self w"
  "sessionState (networkErrorNoted err st w) =
     Some (st\<lparr>connectionAttempts := Suc (connectionAttempts st)\<rparr>)"
  "timers (networkErrorNoted err st w) = timers w"
  "reconnectTimer (networkErrorNoted err st w) = reconnectTimer w"
  "nextTimer (networkErrorNoted err st w) = nextTimer w"
  "emitted (networkErrorNoted err st w) = emitted w @ [NetworkError err (willRetryAfter st)]"
  "remote (networkErrorNoted err st w) = remote w"
  "connects (networkErrorNoted err st w) = connects w"
  "session (networkErrorNoted err st w) = session w"
  "now (networkErrorNoted err st w) = now w"
  by (simp_all add: networkErrorNoted_def emitEvent_def logMsg_def)

lemma reconnecting_fields:
  "self (reconnecting st w) = self w"
  "sessionState (reconnecting st w) = sessionState w"
  "timers (reconnecting st w) = timers w"
  "reconnectTimer (reconnecting st w) = reconnectTimer w"
  "nextTimer (reconnecting st w) = nextTimer w"
  "emitted (reconnecting st w) = emitted w @ [Reconnecting (connectionAttempts st)]"
  "remote (reconnecting st w) = remote w"
  "connects (reconnecting st w) = connects w"
  "session (reconnecting st w) = session w"
  "now (reconnecting st w) = now w + 2000"
  by (simp_all add: reconnecting_def delay_def emitEvent_def RECONNECT_DELAY_MS_def)

lemma network_error_history:
  "(sessionState w = None \<longrightarrow> self (handleNetworkError err w) = self w) \<and>
   (sessionState w \<noteq> None \<longrightarrow> self (handleNetworkError err w) = clearHistory (self w))"
  and reconnection_history:
    "\<forall>st. sessionState w = Some st \<longrightarrow> truthyOpt (resumptionToken st) \<longrightarrow>
       self (attemptReconnection w) = clearHistory (self w)"
proof (induction err w and w rule: network_induct)
  case (idle err w)
  then show ?case by (simp add: handleNetworkError_cases logMsg_def)
next
  case (giveUp err w st)
  then show ?case
    by (simp add: handleNetworkError_cases
        endSession_active(5) [OF networkErrorNoted_fields(2)] networkErrorNoted_fields)
next
  case (retry err w st)
  then show ?case
    by (simp add: handleNetworkError_cases networkErrorNoted_fields willRetryAfter_def)
next
  case (noState w)
  then show ?case by simp
next
  case (noToken w st)
  then show ?case by simp
next
  case (failed w st e w3)
  have "sessionState w3 = Some st"
    using reconnectSession_rejected [OF failed(3)] failed(1) by (simp add: reconnecting_fields)
  moreover have "self w3 = clearHistory (self w)"
    using reconnectSession_frame(1) [of "reconnecting st w"] failed(3)
    by (simp add: worldOf_def reconnecting_fields)
  ultimately show ?case
    using failed by (simp add: attemptReconnection_cases logMsg_def)
next
  case (resumed w st w3)
  obtain st3 where st3: "sessionState w3 = Some st3"
    using reconnectSession_accepted [OF resumed(3)] resumed(1)
    by (auto simp: reconnecting_fields)
  have "self w3 = clearHistory (self w)"
    using reconnectSession_frame(1) [of "reconnecting st w"] resumed(3)
    by (simp add: worldOf_def reconnecting_fields)
  then show ?case
    using resumed st3 by (simp add: attemptReconnection_cases emitEvent_def)
qed

lemma reconnectSession_accepts:
  assumes "sessionState w = Some st" and "remote w (connects w) = Inr s"
  shows "\<exists>w3 st3. reconnectSession w = Inr w3 \<and> session w3 = Some s \<and>
           sessionState w3 = Some st3"
  using assms
  by (simp add: reconnectSession_def createNewSession_def performSessionCleanup_fields
      performSessionCleanup_sessionState logMsg_def Let_def)

text \<open>A text session in progress, with one turn in its history and a token.\<close>

definition liveText :: "(nat \<Rightarrow> error + Session) \<Rightarrow> world" where
  "liveText r =
     (idleWorld (TextSessionManager [\<lparr>role = ''user'', parts = [''hi'']\<rparr>] None None) r)
       \<lparr>sessionState := Some (liveState\<lparr>sessionId := SessionId ''text-session-'' 1000\<rparr>),
        session := Some \<lparr>conn = 0, closeError = None, sendError = None\<rparr>,
        connects := 1\<rparr>"

text \<open>
  Claim C9. \<^verbatim>\<open>reconnectSession()\<close> of either adapter empties the history, whether the
  new conduit opens or not. So does every automatic reconnection that reaches it:
  \<^verbatim>\<open>attemptReconnection()\<close> on a session with a non-empty token, the timer of a GoAway
  that fires on such a session, and a network error that is retried. When the transport
  accepts the new conduit the session is still there afterwards, with an empty history.
\<close>

theorem reconnection_empties_history:
  "getMessages (worldOf (reconnectSession w)) = [] \<and>
   getCallTranscript (worldOf (reconnectSession w)) = [] \<and>
   (\<forall>st. sessionState w = Some st \<and> truthyOpt (resumptionToken st) \<longrightarrow>
      getMessages (attemptReconnection w) = [] \<and>
      getCallTranscript (attemptReconnection w) = []) \<and>
   (\<forall>st h due. sessionState w = Some st \<and> truthyOpt (resumptionToken st) \<and>
      map_of (timers w) h = Some due \<longrightarrow>
      getMessages (timerFires h w) = [] \<and> getCallTranscript (timerFires h w) = []) \<and>
   (\<forall>st err. sessionState w = Some st \<and> willRetryAfter st \<longrightarrow>
      getMessages (handleNetworkError err w) = [] \<and>
      getCallTranscript (handleNetworkError err w) = []) \<and>
   (\<forall>st s. sessionState w = Some st \<and> truthyOpt (resumptionToken st) \<and>
      remote w (connects w) = Inr s \<longrightarrow>
      sessionState (attemptReconnection w) \<noteq> None \<and>
      session (attemptReconnection w) = Some s)"
proof (intro conjI allI impI)
  show "getMessages (worldOf (reconnectSession w)) = []"
    "getCallTranscript (worldOf (reconnectSession w)) = []"
    by (simp_all add: getMessages_def getCallTranscript_def reconnectSession_frame)
next
  fix st
  assume "sessionState w = Some st \<and> truthyOpt (resumptionToken st)"
  then show "getMessages (attemptReconnection w) = []"
    "getCallTranscript (attemptReconnection w) = []"
    using reconnection_history [of w]
    by (simp_all add: getMessages_def getCallTranscript_def)
next
  fix st h due
  assume a: "sessionState w = Some st \<and> truthyOpt (resumptionToken st) \<and>
      map_of (timers w) h = Some due"
  then have "self (timerFires h w) = clearHistory (self w)"
    using reconnection_history [of "(clearTimeout h w)\<lparr>now := max (now w) due\<rparr>"]
    by (simp add: timerFires_def clearTimeout_def)
  then show "getMessages (timerFires h w) = []" "getCallTranscript (timerFires h w) = []"
    by (simp_all add: getMessages_def getCallTranscript_def)
next
  fix st err
  assume "sessionState w = Some st \<and> willRetryAfter st"
  then show "getMessages (handleNetworkError err w) = []"
    "getCallTranscript (handleNetworkError err w) = []"
    using network_error_history [of w err]
    by (simp_all add: getMessages_def getCallTranscript_def)
next
  fix st s
  assume a: "sessionState w = Some st \<and> truthyOpt (resumptionToken st) \<and>
      remote w (connects w) = Inr s"
  then obtain w3 st3 where w3: "reconnectSession (reconnecting st w) = Inr w3"
    "session w3 = Some s" "sessionState w3 = Some st3"
    using reconnectSession_accepts [of "reconnecting st w" st s]
    by (auto simp: reconnecting_fields)
  with a show "sessionState (attemptReconnection w) \<noteq> None"
    "session (attemptReconnection w) = Some s"
    by (simp_all add: attemptReconnection_cases(4) [of w st w3 st3] emitEvent_def)
qed

theorem reconnection_empties_history_witness:
  "sessionState (liveCall acceptingRemote) = Some liveState \<and>
   truthyOpt (resumptionToken liveState) \<and> willRetryAfter liveState \<and>
   map_of (timers (liveCall acceptingRemote)) (TimerId 1) = Some 1500 \<and>
   remote (liveCall acceptingRemote) (connects (liveCall acceptingRemote)) =
     Inr \<lparr>conn = 1, closeError = None, sendError = None\<rparr> \<and>
   getCallTranscript (liveCall acceptingRemote) = [\<lparr>speaker = User, said = ''hello''\<rparr>] \<and>
   getCallTranscript (attemptReconnection (liveCall acceptingRemote)) = [] \<and>
   getCallTranscript (timerFires (TimerId 1) (liveCall acceptingRemote)) = [] \<and>
   getCallTranscript (handleNetworkError (Error ''reset'') (liveCall acceptingRemote)) = [] \<and>
   sessionState (attemptReconnection (liveCall acceptingRemote)) \<noteq> None \<and>
   getMessages (liveText refusingRemote) = [\<lparr>role = ''user'', parts = [''hi'']\<rparr>] \<and>
   getMessages (worldOf (reconnectSession (liveText refusingRemote))) = []"
proof -
  have a: "sessionState (liveCall acceptingRemote) = Some liveState"
    "truthyOpt (resumptionToken liveState)" "willRetryAfter liveState"
    "map_of (timers (liveCall acceptingRemote)) (TimerId 1) = Some 1500"
    "remote (liveCall acceptingRemote) (connects (liveCall acceptingRemote)) =
       Inr \<lparr>conn = 1, closeError = None, sendError = None\<rparr>"
    "getCallTranscript (liveCall acceptingRemote) = [\<lparr>speaker = User, said = ''hello''\<rparr>]"
    "getMessages (liveText refusingRemote) = [\<lparr>role = ''user'', parts = [''hi'']\<rparr>]"
    by (simp_all add: liveCall_def idleWorld_def liveState_def willRetryAfter_def truthy_def
        MAX_RECONNECT_ATTEMPTS_def acceptingRemote_def getCallTranscript_def getMessages_def
        liveText_def)
  show ?thesis
    using reconnection_empties_history [of "liveCall acceptingRemote"]
      reconnection_empties_history [of "liveText refusingRemote"] a
    by simp
qed

section \<open>The ceiling on retries\<close>

text \<open>The \<^verbatim>\<open>willRetry\<close> flags and the attempt numbers in a sequence of events.\<close>

fun willRetryFlags :: "SessionEvent list \<Rightarrow> bool list" where
  "willRetryFlags [] = []"
| "willRetryFlags (NetworkError e b # es) = b # willRetryFlags es"
| "willRetryFlags (_ # es) = willRetryFlags es"

fun reconnectAttempts :: "SessionEvent list \<Rightarrow> nat list" where
  "reconnectAttempts [] = []"
| "reconnectAttempts (Reconnecting n # es) = n # reconnectAttempts es"
| "reconnectAttempts (_ # es) = reconnectAttempts es"

lemma willRetryFlags_append [simp]:
  "willRetryFlags (xs @ ys) = willRetryFlags xs @ willRetryFlags ys"
  by (induction xs rule: willRetryFlags.induct) simp_all

lemma reconnectAttempts_append [simp]:
  "reconnectAttempts (xs @ ys) = reconnectAttempts xs @ reconnectAttempts ys"
  by (induction xs rule: reconnectAttempts.induct) simp_all










section \<open>GoAway and the scheduled reconnection\<close>

text \<open>
  What can happen to a manager from outside: a call of one of its public methods, a
  callback of the conduit, a timeout that fires, time that passes. A method of the other
  subclass does not exist on the object and changes nothing.
\<close>

datatype input =
    StartSession SessionConfig
  | EndSession
  | SetResumptionToken string
  | SendMessage string
  | SendAudio "nat list"
  | OnMessage LiveServerMessage
  | OnError error
  | OnOpen
  | OnClose
  | TimerFires timer_id
  | Elapse nat

fun step :: "input \<Rightarrow> world \<Rightarrow> world" where
  "step (StartSession config) w = worldOf (startSession config w)"
| "step EndSession w = endSession w"
| "step (SetResumptionToken tok) w = setResumptionToken tok w"
| "step (SendMessage m) w = (if isText (self w) then snd (sendMessage m w) else w)"
| "step (SendAudio chunk) w = (if isText (self w) then w else worldOf (sendAudio chunk w))"
| "step (OnMessage msg) w = (if isText (self w) then onmessageText msg w else onmessageCall msg w)"
| "step (OnError e) w = (if isText (self w) then onerrorText e w else onerrorCall e w)"
| "step OnOpen w = onopen w"
| "step OnClose w = onclose w"
| "step (TimerFires h) w = timerFires h w"
| "step (Elapse d) w = w\<lparr>now := now w + int d\<rparr>"

fun run :: "input list \<Rightarrow> world \<Rightarrow> world" where
  "run [] w = w"
| "run (i # is) w = run is (step i w)"

text \<open>The constructor sets no timeout and leaves \<^verbatim>\<open>reconnectTimer\<close> null.\<close>

definition constructed :: "world \<Rightarrow> bool" where
  "constructed w = (timers w = [] \<and> reconnectTimer w = None \<and> sessionState w = None)"

text \<open>
  At most one timeout is pending, and it is the one \<^verbatim>\<open>reconnectTimer\<close> holds.
\<close>

definition onePending :: "world \<Rightarrow> bool" where
  "onePending w =
     (length (timers w) \<le> 1 \<and> list_all (\<lambda>p. reconnectTimer w = Some (fst p)) (timers w))"

lemma logMsg_fields:
  "sessionState (logMsg l m d w) = sessionState w"
  "timers (logMsg l m d w) = timers w"
  "reconnectTimer (logMsg l m d w) = reconnectTimer w"
  "nextTimer (logMsg l m d w) = nextTimer w"
  "emitted (logMsg l m d w) = emitted w"
  "now (logMsg l m d w) = now w"
  "self (logMsg l m d w) = self w"
  "session (logMsg l m d w) = session w"
  by (simp_all add: logMsg_def)

lemma emitEvent_fields:
  "sessionState (emitEvent e w) = sessionState w"
  "timers (emitEvent e w) = timers w"
  "reconnectTimer (emitEvent e w) = reconnectTimer w"
  "nextTimer (emitEvent e w) = nextTimer w"
  "emitted (emitEvent e w) = emitted w @ [e]"
  "now (emitEvent e w) = now w"
  "self (emitEvent e w) = self w"
  "session (emitEvent e w) = session w"
  by (simp_all add: emitEvent_def)

lemma onePending_same:
  "timers w' = timers w \<Longrightarrow> reconnectTimer w' = reconnectTimer w \<Longrightarrow>
   onePending w' = onePending w"
  by (simp add: onePending_def)

lemma onePending_none: "timers w = [] \<Longrightarrow> onePending w"
  by (simp add: onePending_def)

lemma onePending_cleared:
  assumes "onePending w"
  shows "(case reconnectTimer w of
            None \<Rightarrow> timers w
          | Some h \<Rightarrow> filter (\<lambda>p. fst p \<noteq> h) (timers w)) = []"
  using assms by (cases "timers w") (auto simp: onePending_def split: option.splits)

lemma scheduleReconnection_fields:
  assumes "onePending w"
  shows "timers (scheduleReconnection t w) = [(TimerId (nextTimer w), now w + max 0 (t - 500))]"
    and "reconnectTimer (scheduleReconnection t w) = Some (TimerId (nextTimer w))"
    and "emitted (scheduleReconnection t w) = emitted w"
    and "sessionState (scheduleReconnection t w) = sessionState w"
    and "nextTimer (scheduleReconnection t w) = Suc (nextTimer w)"
proof -
  define w1 where "w1 = (case reconnectTimer w of None \<Rightarrow> w | Some h \<Rightarrow> clearTimeout h w)"
  have w1: "timers w1 = []" "now w1 = now w" "nextTimer w1 = nextTimer w"
    "emitted w1 = emitted w" "sessionState w1 = sessionState w"
    using onePending_cleared [OF assms]
    by (simp_all add: w1_def clearTimeout_def split: option.splits)
  have "scheduleReconnection t w =
          (snd (setTimeout (max 0 (t - 500))
             (logMsg Info ''Scheduling reconnection'' (DInt (max 0 (t - 500))) w1)))
          \<lparr>reconnectTimer := Some (TimerId (nextTimer w))\<rparr>"
    unfolding w1_def
    by (simp add: scheduleReconnection_def setTimeout_def logMsg_def clearTimeout_def Let_def
        split: option.splits)
  then show "timers (scheduleReconnection t w) =
      [(TimerId (nextTimer w), now w + max 0 (t - 500))]"
    and "reconnectTimer (scheduleReconnection t w) = Some (TimerId (nextTimer w))"
    and "emitted (scheduleReconnection t w) = emitted w"
    and "sessionState (scheduleReconnection t w) = sessionState w"
    and "nextTimer (scheduleReconnection t w) = Suc (nextTimer w)"
    by (simp_all add: setTimeout_def logMsg_def w1)
qed

lemma handleGoAwayMessage_fields:
  "emitted (handleGoAwayMessage t w) = emitted w @ [GoAway t]"
  "sessionState (handleGoAwayMessage t w) = sessionState w"
  "onePending w \<Longrightarrow> sessionState w = Some st \<Longrightarrow> truthyOpt (resumptionToken st) \<Longrightarrow>
     timers (handleGoAwayMessage t w) =
       [(TimerId (nextTimer w), now w + max 0 (t - 500))] \<and>
     reconnectTimer (handleGoAwayMessage t w) = Some (TimerId (nextTimer w))"
  "sessionState w = None \<Longrightarrow>
     timers (handleGoAwayMessage t w) = timers w \<and>
     reconnectTimer (handleGoAwayMessage t w) = reconnectTimer w"
  "sessionState w = Some st \<Longrightarrow> \<not> truthyOpt (resumptionToken st) \<Longrightarrow>
     timers (handleGoAwayMessage t w) = timers w \<and>
     reconnectTimer (handleGoAwayMessage t w) = reconnectTimer w"
proof -
  define w2 where "w2 = emitEvent (GoAway t) (logMsg Warn ''Received GoAway message'' (DInt t) w)"
  have w2: "timers w2 = timers w" "reconnectTimer w2 = reconnectTimer w"
    "nextTimer w2 = nextTimer w" "now w2 = now w" "sessionState w2 = sessionState w"
    "emitted w2 = emitted w @ [GoAway t]"
    by (simp_all add: w2_def emitEvent_def logMsg_def)
  have p: "onePending w2 = onePending w"
    by (rule onePending_same) (simp_all add: w2)
  have g: "handleGoAwayMessage t w =
             (case sessionState w of
                None \<Rightarrow> w2
              | Some st \<Rightarrow>
                  if truthyOpt (resumptionToken st) then scheduleReconnection t w2 else w2)"
    unfolding w2_def
    by (simp add: handleGoAwayMessage_def Let_def logMsg_fields emitEvent_fields)
  have sched: "onePending w \<Longrightarrow>
      emitted (scheduleReconnection t w2) = emitted w @ [GoAway t] \<and>
      sessionState (scheduleReconnection t w2) = sessionState w"
    using scheduleReconnection_fields [of w2 t] p by (simp add: w2)
  show "emitted (handleGoAwayMessage t w) = emitted w @ [GoAway t]"
    by (simp add: g scheduleReconnection_def setTimeout_def logMsg_def clearTimeout_def
        Let_def w2 split: option.splits)
  show "sessionState (handleGoAwayMessage t w) = sessionState w"
    by (simp add: g scheduleReconnection_def setTimeout_def logMsg_def clearTimeout_def
        Let_def w2 split: option.splits)
  show "onePending w \<Longrightarrow> sessionState w = Some st \<Longrightarrow> truthyOpt (resumptionToken st) \<Longrightarrow>
     timers (handleGoAwayMessage t w) =
       [(TimerId (nextTimer w), now w + max 0 (t - 500))] \<and>
     reconnectTimer (handleGoAwayMessage t w) = Some (TimerId (nextTimer w))"
    using scheduleReconnection_fields [of w2 t] p by (simp add: g w2)
  show "sessionState w = None \<Longrightarrow>
     timers (handleGoAwayMessage t w) = timers w \<and>
     reconnectTimer (handleGoAwayMessage t w) = reconnectTimer w"
    by (simp add: g w2)
  show "sessionState w = Some st \<Longrightarrow> \<not> truthyOpt (resumptionToken st) \<Longrightarrow>
     timers (handleGoAwayMessage t w) = timers w \<and>
     reconnectTimer (handleGoAwayMessage t w) = reconnectTimer w"
    by (simp add: g w2)
qed

lemma handleGoAwayMessage_onePending:
  "onePending w \<Longrightarrow> onePending (handleGoAwayMessage t w)"
proof (cases "sessionState w")
  case None
  assume "onePending w"
  with handleGoAwayMessage_fields(4) [OF None, of t] show ?thesis
    by (simp add: onePending_def)
next
  case (Some st)
  assume p: "onePending w"
  show ?thesis
  proof (cases "truthyOpt (resumptionToken st)")
    case True
    with handleGoAwayMessage_fields(3) [OF p Some, of t] show ?thesis
      by (simp add: onePending_def)
  next
    case False
    with handleGoAwayMessage_fields(5) [OF Some, of t] p show ?thesis
      by (simp add: onePending_def)
  qed
qed

lemma endSession_onePending: "onePending w \<Longrightarrow> onePending (endSession w)"
proof (cases "sessionState w")
  case None
  assume "onePending w"
  then show ?thesis by (simp add: endSession_idle [OF None] onePending_def logMsg_def)
next
  case (Some st)
  assume "onePending w"
  then show ?thesis
    by (simp add: onePending_none endSession_active(3) [OF Some] onePending_cleared)
qed

lemma network_error_onePending:
  "onePending w \<longrightarrow> onePending (handleNetworkError err w)"
  and reconnection_onePending:
  "onePending w \<longrightarrow> onePending (attemptReconnection w)"
proof (induction err w and w rule: network_induct)
  case (idle err w)
  then show ?case
    by (simp add: handleNetworkError_cases onePending_def logMsg_fields)
next
  case (giveUp err w st)
  have "onePending (networkErrorNoted err st w) = onePending w"
    by (rule onePending_same) (simp_all add: networkErrorNoted_fields)
  with giveUp show ?case
    by (simp add: handleNetworkError_cases endSession_onePending)
next
  case (retry err w st)
  have "onePending (networkErrorNoted err st w) = onePending w"
    by (rule onePending_same) (simp_all add: networkErrorNoted_fields)
  with retry show ?case
    by (simp add: handleNetworkError_cases)
next
  case (noState w)
  then show ?case
    by (simp add: attemptReconnection_cases onePending_def logMsg_fields)
next
  case (noToken w st)
  then show ?case
    by (simp add: attemptReconnection_cases onePending_def logMsg_fields)
next
  case (failed w st e w3)
  have "timers w3 = timers w" "reconnectTimer w3 = reconnectTimer w"
    using reconnectSession_frame(2,3) [of "reconnecting st w"] failed(3)
    by (simp_all add: worldOf_def reconnecting_fields)
  then have "onePending (logMsg Err ''Reconnection failed'' (DError e) w3) = onePending w"
    by (intro onePending_same) (simp_all add: logMsg_fields)
  with failed show ?case
    by (simp add: attemptReconnection_cases)
next
  case (resumed w st w3)
  obtain st3 where st3: "sessionState w3 = Some st3"
    using reconnectSession_accepted [OF resumed(3)] resumed(1)
    by (auto simp: reconnecting_fields)
  have "timers w3 = timers w" "reconnectTimer w3 = reconnectTimer w"
    using reconnectSession_frame(2,3) [of "reconnecting st w"] resumed(3)
    by (simp_all add: worldOf_def reconnecting_fields)
  then have "onePending (attemptReconnection w) = onePending w"
    using resumed st3
    by (intro onePending_same) (simp_all add: attemptReconnection_cases emitEvent_def)
  then show ?case by simp
qed

lemma timerFires_onePending: "onePending w \<Longrightarrow> onePending (timerFires h w)"
proof (cases "map_of (timers w) h")
  case None
  assume "onePending w"
  with None show ?thesis by (simp add: timerFires_def)
next
  case (Some due)
  assume "onePending w"
  then have "onePending ((clearTimeout h w)\<lparr>now := max (now w) due\<rparr>)"
    by (cases "timers w") (auto simp: onePending_def clearTimeout_def)
  with Some show ?thesis
    by (simp add: timerFires_def reconnection_onePending)
qed

lemma startSession_frame:
  "timers (worldOf (startSession config w)) = timers w"
  "reconnectTimer (worldOf (startSession config w)) = reconnectTimer w"
  "self (worldOf (startSession config w)) = self w"
  "nextTimer (worldOf (startSession config w)) = nextTimer w"
  "energyLevel (worldOf (startSession config w)) = energyLevel w"
  "modelTable (worldOf (startSession config w)) = modelTable w"
  by (simp_all add: startSession_def getValidResumptionToken_def sessionStarted_fields
      createNewSession_fields resumeSession_def logMsg_def Let_def
      split: option.splits prod.splits)

lemma setResumptionToken_frame:
  "timers (setResumptionToken tok w) = timers w"
  "reconnectTimer (setResumptionToken tok w) = reconnectTimer w"
  "nextTimer (setResumptionToken tok w) = nextTimer w"
  "now (setResumptionToken tok w) = now w"
  "emitted (setResumptionToken tok w) = emitted w"
  "self (setResumptionToken tok w) = self w"
  "session (setResumptionToken tok w) = session w"
  "sessionState (setResumptionToken tok w) =
     map_option (\<lambda>st. st\<lparr>resumptionToken := Some tok\<rparr>) (sessionState w)"
  by (simp_all add: setResumptionToken_def storeResumptionToken_def logMsg_def
      split: option.splits)

lemma handleRateLimitError_frame:
  "timers (handleRateLimitError e w) = timers w"
  "reconnectTimer (handleRateLimitError e w) = reconnectTimer w"
  "self (handleRateLimitError e w) = self w"
  "session (handleRateLimitError e w) = session w"
  "sessionState (handleRateLimitError e w) = sessionState w"
  by (simp_all add: handleRateLimitError_def emitEvent_def logMsg_def)

lemma handleControl_onePending: "onePending w \<Longrightarrow> onePending (handleControl msg w)"
proof -
  assume p: "onePending w"
  define w1 where "w1 = (case resumptionUpdateOf msg of
                  None \<Rightarrow> w
                | Some u \<Rightarrow>
                    (case newHandle u of
                       None \<Rightarrow> w
                     | Some h \<Rightarrow> if resumable u \<and> truthy h then setResumptionToken h w else w))"
  define w2 where "w2 = (case goAwayOf msg of
                  None \<Rightarrow> w1
                | Some g \<Rightarrow>
                    (case timeLeft g of None \<Rightarrow> w1 | Some t \<Rightarrow> handleGoAwayMessage t w1))"
  have "onePending w1 = onePending w"
    by (rule onePending_same)
       (simp_all add: w1_def setResumptionToken_frame split: option.splits)
  with p have "onePending w2"
    by (simp add: w2_def handleGoAwayMessage_onePending split: option.splits)
  moreover have "\<And>e. onePending (handleRateLimitError e w2) = onePending w2"
    by (rule onePending_same) (simp_all add: handleRateLimitError_frame)
  moreover have "handleControl msg w =
      (case serverContent msg of
           None \<Rightarrow> w2
         | Some sc \<Rightarrow>
             (case errorMessage sc of
                None \<Rightarrow> w2
              | Some m \<Rightarrow>
                  if sublist ''rate limit'' m then handleRateLimitError (Error m) w2 else w2))"
    unfolding w2_def w1_def by (simp add: handleControl_def Let_def)
  ultimately show ?thesis
    by (simp split: option.splits)
qed

lemma settle_frame:
  "timers (settle p v w) = timers w"
  "reconnectTimer (settle p v w) = reconnectTimer w"
  "self (settle p v w) = self w"
  "session (settle p v w) = session w"
  "sessionState (settle p v w) = sessionState w"
  "wired (settle p v w) = wired w"
  by (simp_all add: settle_def split: option.splits)

lemma onmessage_onePending:
  "onePending w \<Longrightarrow> onePending (onmessageText msg w)"
  "onePending w \<Longrightarrow> onePending (onmessageCall msg w)"
proof -
  assume p: "onePending w"
  have "timers (onmessageText msg w) = timers (handleControl msg w) \<and>
        reconnectTimer (onmessageText msg w) = reconnectTimer (handleControl msg w)"
    by (simp add: onmessageText_def Let_def emitEvent_def settle_frame
        split: option.splits adapter.splits)
  then have "onePending (onmessageText msg w) = onePending (handleControl msg w)"
    by (intro onePending_same) simp_all
  with p show "onePending (onmessageText msg w)"
    by (simp add: handleControl_onePending)
  have "timers (onmessageCall msg w) = timers (handleControl msg w) \<and>
        reconnectTimer (onmessageCall msg w) = reconnectTimer (handleControl msg w)"
    by (simp add: onmessageCall_def Let_def emitEvent_def pushTurn_def
        split: option.splits)
  then have "onePending (onmessageCall msg w) = onePending (handleControl msg w)"
    by (intro onePending_same) simp_all
  with p show "onePending (onmessageCall msg w)"
    by (simp add: handleControl_onePending)
qed

lemma onerror_onePending:
  "onePending w \<Longrightarrow> onePending (onerrorText e w)"
  "onePending w \<Longrightarrow> onePending (onerrorCall e w)"
proof -
  assume p: "onePending w"
  have "timers (onerrorText e w) = timers (handleNetworkError e w) \<and>
        reconnectTimer (onerrorText e w) = reconnectTimer (handleNetworkError e w)"
    by (simp add: onerrorText_def Let_def settle_frame split: option.splits adapter.splits)
  then have "onePending (onerrorText e w) = onePending (handleNetworkError e w)"
    by (intro onePending_same) simp_all
  with p show "onePending (onerrorText e w)"
    by (simp add: network_error_onePending)
  from p show "onePending (onerrorCall e w)"
    by (simp add: onerrorCall_def network_error_onePending)
qed

lemma sendMessage_frame:
  "timers (snd (sendMessage m w)) = timers w"
  "reconnectTimer (snd (sendMessage m w)) = reconnectTimer w"
proof -
  define w0 where "w0 = w\<lparr>nextPromise := Suc (nextPromise w)\<rparr>"
  define started where "started =
            (case session w0 of
               Some _ \<Rightarrow> Inr w0
             | None \<Rightarrow>
                 (case getModel w0 of
                    Inl e \<Rightarrow> Inl (e, w0)
                  | Inr m \<Rightarrow>
                      startSession
                        \<lparr>model = m, contextText = None, enableResumption = None,
                         maxReconnectAttempts = None\<rparr> w0))"
  have s: "timers (worldOf started) = timers w"
    "reconnectTimer (worldOf started) = reconnectTimer w"
    by (simp_all add: started_def startSession_frame w0_def
        split: option.splits sum.splits, simp_all add: worldOf_def)
  have "timers (snd (sendMessage m w)) = timers (worldOf started) \<and>
        reconnectTimer (snd (sendMessage m w)) = reconnectTimer (worldOf started)"
    unfolding started_def w0_def
    by (simp add: sendMessage_def Let_def worldOf_def settle_frame pushMessage_def
        split: sum.splits prod.splits option.splits)
  with s show "timers (snd (sendMessage m w)) = timers w"
    "reconnectTimer (snd (sendMessage m w)) = reconnectTimer w"
    by simp_all
qed

lemma sendAudio_frame:
  "timers (worldOf (sendAudio chunk w)) = timers w"
  "reconnectTimer (worldOf (sendAudio chunk w)) = reconnectTimer w"
proof -
  define started where "started =
            (case session w of
               Some _ \<Rightarrow> Inr w
             | None \<Rightarrow>
                 (case getModel w of
                    Inl e \<Rightarrow> Inl (e, w)
                  | Inr m \<Rightarrow>
                      startSession
                        \<lparr>model = m, contextText = None, enableResumption = Some False,
                         maxReconnectAttempts = None\<rparr> w))"
  have s: "timers (worldOf started) = timers w"
    "reconnectTimer (worldOf started) = reconnectTimer w"
    by (simp_all add: started_def startSession_frame
        split: option.splits sum.splits, simp_all add: worldOf_def)
  have "timers (worldOf (sendAudio chunk w)) = timers (worldOf started) \<and>
        reconnectTimer (worldOf (sendAudio chunk w)) = reconnectTimer (worldOf started)"
    unfolding started_def
    by (simp add: sendAudio_def Let_def worldOf_def logMsg_def
        split: sum.splits prod.splits option.splits)
  with s show "timers (worldOf (sendAudio chunk w)) = timers w"
    "reconnectTimer (worldOf (sendAudio chunk w)) = reconnectTimer w"
    by simp_all
qed

lemma step_onePending: "onePending w \<Longrightarrow> onePending (step i w)"
proof (cases i)
  case (StartSession config)
  assume "onePending w"
  moreover have "onePending (step i w) = onePending w"
    unfolding StartSession by (rule onePending_same) (simp_all add: startSession_frame)
  ultimately show ?thesis by simp
next
  case EndSession
  assume "onePending w"
  then show ?thesis by (simp add: EndSession endSession_onePending)
next
  case (SetResumptionToken tok)
  assume "onePending w"
  moreover have "onePending (step i w) = onePending w"
    unfolding SetResumptionToken by (rule onePending_same) (simp_all add: setResumptionToken_frame)
  ultimately show ?thesis by simp
next
  case (SendMessage m)
  assume "onePending w"
  moreover have "onePending (step i w) = onePending w"
    unfolding SendMessage by (rule onePending_same) (simp_all add: sendMessage_frame)
  ultimately show ?thesis by simp
next
  case (SendAudio chunk)
  assume "onePending w"
  moreover have "onePending (step i w) = onePending w"
    unfolding SendAudio by (rule onePending_same) (simp_all add: sendAudio_frame)
  ultimately show ?thesis by simp
next
  case (OnMessage msg)
  assume "onePending w"
  then show ?thesis by (simp add: OnMessage onmessage_onePending)
next
  case (OnError e)
  assume "onePending w"
  then show ?thesis by (simp add: OnError onerror_onePending)
next
  case OnOpen
  assume "onePending w"
  then show ?thesis by (simp add: OnOpen onopen_def onePending_def split: option.splits)
next
  case OnClose
  assume "onePending w"
  then show ?thesis by (simp add: OnClose onclose_def onePending_def split: option.splits)
next
  case (TimerFires h)
  assume "onePending w"
  then show ?thesis by (simp add: TimerFires timerFires_onePending)
next
  case (Elapse d)
  assume "onePending w"
  then show ?thesis by (simp add: Elapse onePending_def)
qed

lemma run_onePending: "onePending w \<Longrightarrow> onePending (run is w)"
  by (induction "is" arbitrary: w) (simp_all add: step_onePending)

text \<open>A message that only announces a GoAway with the time left.\<close>

definition goAwayIn :: "int \<Rightarrow> LiveServerMessage" where
  "goAwayIn t =
     \<lparr>sessionResumptionUpdate = None, goAway = Some \<lparr>timeLeft = Some t\<rparr>,
      serverContent = None\<rparr>"

text \<open>
  A call that has sent audio, received the token \<open>''handle-1''\<close> and then a GoAway with
  1000 ms left.
\<close>

definition warnedCall :: world where
  "warnedCall =
     run [SendAudio [], SetResumptionToken ''handle-1'', OnMessage (goAwayIn 1000)]
       (idleWorld (CallSessionManager []) acceptingRemote)"



subsection \<open>Ending a session that was warned\<close>

text \<open>
  Claim C6. Without session state \<^verbatim>\<open>endSession()\<close> only logs a warning: nothing else
  changes and no event is emitted. With session state it cancels the timeout held in
  \<^verbatim>\<open>reconnectTimer\<close>, which in every state a manager reaches from its construction
  leaves no timeout pending, runs the adapter's cleanup (the conduit is closed and
  dropped, the history emptied), stores the resumption token, when the state holds a
  non-empty one, under the adapter's name with the current time, sets the session state
  to null and emits \<^verbatim>\<open>session-ended\<close>. A second call in a row finds no session state
  and only logs the warning.
\<close>

theorem endSession_contract:
  "(sessionState w = None \<longrightarrow>
      endSession w = logMsg Warn ''No active session to end'' NoDetail w \<and>
      emitted (endSession w) = emitted w) \<and>
   (\<forall>st. sessionState w = Some st \<longrightarrow>
      sessionState (endSession w) = None \<and>
      reconnectTimer (endSession w) = None \<and>
      timers (endSession w) =
        (case reconnectTimer w of
           None \<Rightarrow> timers w
         | Some h \<Rightarrow> filter (\<lambda>p. fst p \<noteq> h) (timers w)) \<and>
      (\<forall>w0 is. constructed w0 \<and> w = run is w0 \<longrightarrow> timers (endSession w) = []) \<and>
      session (endSession w) = None \<and>
      wired (endSession w) =
        wired w @ (case session w of None \<Rightarrow> [] | Some s \<Rightarrow> [Close (conn s)]) \<and>
      getMessages (endSession w) = [] \<and>
      getCallTranscript (endSession w) = [] \<and>
      resumptionTokenStore (endSession w) =
        (case resumptionToken st of
           None \<Rightarrow> resumptionTokenStore w
         | Some tok \<Rightarrow>
             if truthy tok
             then (resumptionTokenStore w)
                    (componentName w \<mapsto> \<lparr>token = tok, storedAt = now w\<rparr>)
             else resumptionTokenStore w) \<and>
      emitted (endSession w) = emitted w @ [SessionEnded (sessionId st)]) \<and>
   endSession (endSession w) =
     logMsg Warn ''No active session to end'' NoDetail (endSession w)"
proof (intro conjI allI impI)
  assume "sessionState w = None"
  then show "endSession w = logMsg Warn ''No active session to end'' NoDetail w"
    and "emitted (endSession w) = emitted w"
    by (simp_all add: endSession_idle logMsg_def)
next
  fix st
  assume st: "sessionState w = Some st"
  show "sessionState (endSession w) = None" "reconnectTimer (endSession w) = None"
    "session (endSession w) = None"
    by (rule endSession_active [OF st])+
  show "timers (endSession w) =
        (case reconnectTimer w of
           None \<Rightarrow> timers w
         | Some h \<Rightarrow> filter (\<lambda>p. fst p \<noteq> h) (timers w))"
    by (rule endSession_active [OF st])
  show "wired (endSession w) =
        wired w @ (case session w of None \<Rightarrow> [] | Some s \<Rightarrow> [Close (conn s)])"
    by (rule endSession_active [OF st])
  show "getMessages (endSession w) = []" "getCallTranscript (endSession w) = []"
    by (simp_all add: getMessages_def getCallTranscript_def endSession_active(5) [OF st])
  show "resumptionTokenStore (endSession w) =
        (case resumptionToken st of
           None \<Rightarrow> resumptionTokenStore w
         | Some tok \<Rightarrow>
             if truthy tok
             then (resumptionTokenStore w)
                    (componentName w \<mapsto> \<lparr>token = tok, storedAt = now w\<rparr>)
             else resumptionTokenStore w)"
    by (rule endSession_active [OF st])
  show "emitted (endSession w) = emitted w @ [SessionEnded (sessionId st)]"
    by (rule endSession_active [OF st])
  fix w0 "is"
  assume "constructed w0 \<and> w = run is w0"
  then have "onePending w"
    using run_onePending [of w0 "is"] by (simp add: constructed_def onePending_def)
  then show "timers (endSession w) = []"
    by (simp add: endSession_active(3) [OF st] onePending_cleared)
next
  show "endSession (endSession w) =
     logMsg Warn ''No active session to end'' NoDetail (endSession w)"
    by (rule endSession_idle [OF endSession_leaves_none])
qed

theorem endSession_contract_witness:
  "sessionState (idleWorld (CallSessionManager []) acceptingRemote) = None \<and>
   emitted (endSession (idleWorld (CallSessionManager []) acceptingRemote)) = [] \<and>
   sessionState (liveCall acceptingRemote) = Some liveState \<and>
   sessionState (endSession (liveCall acceptingRemote)) = None \<and>
   timers (endSession (liveCall acceptingRemote)) = [] \<and>
   wired (endSession (liveCall acceptingRemote)) = [Close 0] \<and>
   getCallTranscript (endSession (liveCall acceptingRemote)) = [] \<and>
   resumptionTokenStore (endSession (liveCall acceptingRemote)) ''CallSessionManager'' =
     Some \<lparr>token = ''handle-1'', storedAt = 1000\<rparr> \<and>
   emitted (endSession (liveCall acceptingRemote)) =
     [SessionEnded (SessionId ''sts-session-'' 1000)] \<and>
   constructed (idleWorld (CallSessionManager []) acceptingRemote) \<and>
   timers warnedCall = [(TimerId 1, 1500)] \<and>
   timers (endSession warnedCall) = []"
proof -
  have a: "sessionState (idleWorld (CallSessionManager []) acceptingRemote) = None"
    by (simp add: idleWorld_def)
  have b: "sessionState (liveCall acceptingRemote) = Some liveState"
    by (simp add: liveCall_def idleWorld_def)
  have c: "emitted (idleWorld (CallSessionManager []) acceptingRemote) = []"
    by (simp add: idleWorld_def)
  have d: "reconnectTimer (liveCall acceptingRemote) = Some (TimerId 1)"
    "timers (liveCall acceptingRemote) = [(TimerId 1, 1500)]"
    "session (liveCall acceptingRemote) = Some \<lparr>conn = 0, closeError = None, sendError = None\<rparr>"
    "wired (liveCall acceptingRemote) = []" "emitted (liveCall acceptingRemote) = []"
    "now (liveCall acceptingRemote) = 1000"
    "componentName (liveCall acceptingRemote) = ''CallSessionManager''"
    "resumptionToken liveState = Some ''handle-1''"
    "sessionId liveState = SessionId ''sts-session-'' 1000"
    by (simp_all add: liveCall_def idleWorld_def liveState_def componentName_def)
  have e: "constructed (idleWorld (CallSessionManager []) acceptingRemote)"
    by (simp add: constructed_def idleWorld_def)
  have f: "sessionState warnedCall =
     Some \<lparr>sessionId = SessionId ''sts-session-'' 1000, resumptionToken = Some ''handle-1'',
           currentModel = ''sts-top'', isActive = True, connectionAttempts = 0\<rparr>"
    "timers warnedCall = [(TimerId 1, 1500)]"
    by code_simp+
  note t = endSession_contract [of warnedCall, THEN conjunct2, THEN conjunct1, rule_format,
      OF f(1)]
  note u = t [THEN conjunct2, THEN conjunct2, THEN conjunct2, THEN conjunct1, rule_format,
      OF conjI [OF e warnedCall_def]]
  show ?thesis
    using endSession_contract [of "idleWorld (CallSessionManager []) acceptingRemote"]
      endSession_contract [of "liveCall acceptingRemote"] a b c d e f(2) u
    by (simp add: truthy_def logMsg_def)
qed

section \<open>Sending a text message\<close>

lemma createNewSession_accepted:
  assumes "remote w (connects w) = Inr s"
  shows "\<exists>w'. createNewSession config w = Inr w' \<and> session w' = Some s \<and>
           sessionState w' =
             Some \<lparr>sessionId = SessionId (sessionPrefix w) (now w), resumptionToken = None,
                   currentModel = model config, isActive = True, connectionAttempts = 0\<rparr> \<and>
           settled w' = settled w \<and> nextPromise w' = nextPromise w \<and>
           emitted w' = emitted w \<and> self w' = self w \<and>
           wired w' = wired w @ [Connect (model config) (getConfig w)]"
  using assms
  by (simp add: createNewSession_def logMsg_def sessionPrefix_def getConfig_def
      isAffectiveDialogEnabled_def Let_def)

lemma startSession_accepted:
  assumes "remote w (connects w) = Inr s"
  shows "\<exists>w'. startSession config w = Inr w' \<and> session w' = Some s \<and>
           sessionState w' =
             Some \<lparr>sessionId = SessionId (sessionPrefix w) (now w), resumptionToken = None,
                   currentModel = model config, isActive = True, connectionAttempts = 0\<rparr> \<and>
           settled w' = settled w \<and> nextPromise w' = nextPromise w \<and>
           emitted w' = emitted w @ [SessionStarted (SessionId (sessionPrefix w) (now w))] \<and>
           self w' = self w \<and>
           wired w' = wired w @ [Connect (model config) (getConfig w)]"
proof -
  obtain tok w2 where g: "getValidResumptionToken (logMsg Info ''Starting session'' NoDetail w) =
      (tok, w2)"
    by (cases "getValidResumptionToken (logMsg Info ''Starting session'' NoDetail w)")
  have w2: "remote w2 = remote w" "connects w2 = connects w" "settled w2 = settled w"
    "nextPromise w2 = nextPromise w" "emitted w2 = emitted w" "self w2 = self w"
    "wired w2 = wired w" "now w2 = now w" "systemPrompt w2 = systemPrompt w"
    "energyLevel w2 = energyLevel w"
    using g
    by (auto simp: getValidResumptionToken_def logMsg_def split: option.splits if_splits)
  define w3 where "w3 = (case tok of
      None \<Rightarrow> w2
    | Some t \<Rightarrow>
        if truthy t \<and> enableResumption config = Some True
        then logMsg Info (if isText (self w2) then ''Resuming text session''
                          else ''Resuming STS session'') (DToken t)
               (logMsg Info ''Attempting to resume session'' (DToken t) w2)
        else w2)"
  have w3: "remote w3 (connects w3) = Inr s" "settled w3 = settled w"
    "nextPromise w3 = nextPromise w" "emitted w3 = emitted w" "self w3 = self w"
    "wired w3 = wired w" "now w3 = now w" "getConfig w3 = getConfig w"
    "sessionPrefix w3 = sessionPrefix w"
    using assms
    by (simp_all add: w3_def w2 logMsg_def getConfig_def sessionPrefix_def
        isAffectiveDialogEnabled_def split: option.splits)
  have s: "startSession config w = sessionStarted (createNewSession config w3)"
    unfolding w3_def
    by (simp add: startSession_def g resumeSession_def logMsg_fields split: option.splits)
  from createNewSession_accepted [OF w3(1), of config] obtain w4 where
    w4: "createNewSession config w3 = Inr w4 \<and> session w4 = Some s \<and>
           sessionState w4 =
             Some \<lparr>sessionId = SessionId (sessionPrefix w3) (now w3), resumptionToken = None,
                   currentModel = model config, isActive = True, connectionAttempts = 0\<rparr> \<and>
           settled w4 = settled w3 \<and> nextPromise w4 = nextPromise w3 \<and>
           emitted w4 = emitted w3 \<and> self w4 = self w3 \<and>
           wired w4 = wired w3 @ [Connect (model config) (getConfig w3)]" ..
  then show ?thesis
    by (simp add: s sessionStarted_def emitEvent_def w3)
qed












section \<open>Sending audio\<close>

text \<open>
  \<^verbatim>\<open>sendAudio\<close> without a conduit starts the session with \<^verbatim>\<open>enableResumption: false\<close>,
  so the stored token is not looked at beyond its expiry, and with the model
  \<^verbatim>\<open>getModel()\<close> returns: the model of the ledger's current audio level.
\<close>

lemma sendAudio_opens:
  assumes "self w = CallSessionManager tr" and "session w = None"
    and "getCurrentModel Sts w = Some m" and "truthy m"
    and "remote w (connects w) = Inr s" and "sendError s = None"
  shows "\<exists>w'. sendAudio chunk w = Inr w' \<and> session w' = Some s \<and>
           wired w' = wired w @ [Connect m (getConfig w), SendRealtimeInput (conn s) chunk] \<and>
           sessionState w' =
             Some \<lparr>sessionId = SessionId ''sts-session-'' (now w), resumptionToken = None,
                   currentModel = m, isActive = True, connectionAttempts = 0\<rparr>"
proof -
  define config where "config =
    \<lparr>model = m, contextText = None, enableResumption = Some False,
     maxReconnectAttempts = None\<rparr>"
  have g: "getModel w = Inr m"
    using assms by (simp add: getModel_def)
  from startSession_accepted [OF assms(5), of config] obtain w1 where
    w1: "startSession config w = Inr w1 \<and> session w1 = Some s \<and>
           sessionState w1 =
             Some \<lparr>sessionId = SessionId (sessionPrefix w) (now w), resumptionToken = None,
                   currentModel = model config, isActive = True, connectionAttempts = 0\<rparr> \<and>
           settled w1 = settled w \<and> nextPromise w1 = nextPromise w \<and>
           emitted w1 = emitted w @ [SessionStarted (SessionId (sessionPrefix w) (now w))] \<and>
           self w1 = self w \<and>
           wired w1 = wired w @ [Connect (model config) (getConfig w)]" ..
  then have "sendAudio chunk w =
      Inr (w1\<lparr>wired := wired w1 @ [SendRealtimeInput (conn s) chunk]\<rparr>)"
    using assms(2,6) g unfolding config_def by (simp add: sendAudio_def Let_def)
  then show ?thesis
    using w1 assms(1) by (simp add: config_def sessionPrefix_def)
qed




section \<open>Ending the call and summarizing\<close>

lemma endCallSession_drops:
  "callSessionManager (endCallSession im) = None"
  "summarizeCalls (endCallSession im) = summarizeCalls im"
  "dispatched (endCallSession im) = dispatched im"
  by (simp_all add: endCallSession_def imLog_def Let_def split: option.splits)

text \<open>An orchestrator whose call manager is in the middle of a call.\<close>

definition busyManager :: InteractionManager where
  "busyManager =
     \<lparr>textSessionManager = None, callSessionManager = Some (liveCall acceptingRemote),
      summarizationService = Some \<lparr>generateContent = (\<lambda>prompt. Inr ''a summary'')\<rparr>,
      dispatched = [], journal = [], clock = 2000, summarizeCalls = [], dropped = []\<rparr>"

text \<open>
  Claim C2. Every call of \<^verbatim>\<open>endSessionAndSummarize()\<close> resolves to the empty string
  and never calls \<^verbatim>\<open>summarize\<close>: \<^verbatim>\<open>endCallSession()\<close> runs first and sets
  \<^verbatim>\<open>callSessionManager\<close> to null, so the transcript read afterwards is empty, nothing
  is dispatched and the list of summarized transcripts is unchanged. The manager that
  was dropped has been ended, and when it had a session its transcript was emptied by
  the cleanup.
\<close>

theorem endSessionAndSummarize_empty:
  "fst (endSessionAndSummarize im) = Inr [] \<and>
   summarizeCalls (snd (endSessionAndSummarize im)) = summarizeCalls im \<and>
   dispatched (snd (endSessionAndSummarize im)) = dispatched im \<and>
   callSessionManager (snd (endSessionAndSummarize im)) = None \<and>
   currentCallTranscript (endCallSession im) = [] \<and>
   (\<forall>m st. callSessionManager im = Some m \<and> sessionState m = Some st \<longrightarrow>
      dropped (snd (endSessionAndSummarize im)) = dropped im @ [endSession m] \<and>
      getCallTranscript (endSession m) = [])"
proof (intro conjI allI impI)
  show "fst (endSessionAndSummarize im) = Inr []"
    "summarizeCalls (snd (endSessionAndSummarize im)) = summarizeCalls im"
    "dispatched (snd (endSessionAndSummarize im)) = dispatched im"
    "callSessionManager (snd (endSessionAndSummarize im)) = None"
    "currentCallTranscript (endCallSession im) = []"
    by (simp_all add: endSessionAndSummarize_def summarizeTranscript_def
        currentCallTranscript_def toMessages_def endCallSession_def imLog_def Let_def
        split: option.splits)
next
  fix m st
  assume a: "callSessionManager im = Some m \<and> sessionState m = Some st"
  then show "dropped (snd (endSessionAndSummarize im)) = dropped im @ [endSession m]"
    by (simp add: endSessionAndSummarize_def summarizeTranscript_def
        currentCallTranscript_def toMessages_def endCallSession_def imLog_def Let_def
        split: option.splits)
  from a show "getCallTranscript (endSession m) = []"
    by (simp add: getCallTranscript_def endSession_active(5))
qed

theorem endSessionAndSummarize_empty_witness:
  "callSessionManager busyManager = Some (liveCall acceptingRemote) \<and>
   sessionState (liveCall acceptingRemote) = Some liveState \<and>
   getCallTranscript (liveCall acceptingRemote) = [\<lparr>speaker = User, said = ''hello''\<rparr>] \<and>
   fst (endSessionAndSummarize busyManager) = Inr [] \<and>
   summarizeCalls (snd (endSessionAndSummarize busyManager)) = [] \<and>
   getCallTranscript (endSession (liveCall acceptingRemote)) = []"
proof -
  have a: "callSessionManager busyManager = Some (liveCall acceptingRemote)"
    "sessionState (liveCall acceptingRemote) = Some liveState"
    "getCallTranscript (liveCall acceptingRemote) = [\<lparr>speaker = User, said = ''hello''\<rparr>]"
    "summarizeCalls busyManager = []"
    by (simp_all add: busyManager_def liveCall_def idleWorld_def getCallTranscript_def)
  note t = endSessionAndSummarize_empty [of busyManager]
  note u = t [THEN conjunct2, THEN conjunct2, THEN conjunct2, THEN conjunct2, THEN conjunct2,
      rule_format, OF conjI [OF a(1,2)]]
  show ?thesis
    using a t [THEN conjunct1] t [THEN conjunct2, THEN conjunct1] u [THEN conjunct2]
    by simp
qed




lemma summarize_never_rejects: "\<exists>s. fst (summarize svc transcript) = Inr s"
  by (simp add: summarize_def split: sum.splits)




end
